theory Spec2Isabelle
  imports Complex_Main "HOL-Library.Product_Lexorder" "HOL-Library.Multiset" "HOL-Library.Word"
begin

section \<open>Numbers of the data frame\<close>

text \<open>
  The price columns of the data frame hold floating-point numbers (the CSV has
  quarter-point prices) and the Volume column holds 64-bit integers (the CSV has whole
  volumes). The model keeps the special values that pandas and numpy produce instead of
  raising: a division by zero gives an infinity or NaN, an empty or one-element
  statistic gives NaN. The sign of zero is not modelled, and the prices read from the
  CSV file are finite.

  The column arithmetic of the frame (typical price, cumulative sums, VWAP, standard
  deviation, bands) is idealised as arithmetic on real numbers: the order and the
  compensation of pandas' grouped sums and its running variance are not part of the
  source. What is proved of the VWAP and of the bands is stated so that it does not
  depend on how a finite result is rounded. The scalar arithmetic of the label, three
  IEEE operations on numpy scalars, is modelled with its rounding (\<open>float64\<close> below).
\<close>

datatype npfloat = Fin real | PInf | NInf | NaN

text \<open>True division of two finite numbers, as numpy does it: no exception.\<close>

definition np_div :: "real \<Rightarrow> real \<Rightarrow> npfloat" where
  "np_div a b =
     (if b \<noteq> 0 then Fin (a / b)
      else if a = 0 then NaN
      else if 0 < a then PInf else NInf)"

fun np_neg :: "npfloat \<Rightarrow> npfloat" where
  "np_neg (Fin a) = Fin (- a)"
| "np_neg PInf = NInf"
| "np_neg NInf = PInf"
| "np_neg NaN = NaN"

fun np_add :: "npfloat \<Rightarrow> npfloat \<Rightarrow> npfloat" where
  "np_add NaN y = NaN"
| "np_add x NaN = NaN"
| "np_add (Fin a) (Fin b) = Fin (a + b)"
| "np_add PInf NInf = NaN"
| "np_add NInf PInf = NaN"
| "np_add PInf y = PInf"
| "np_add NInf y = NInf"
| "np_add (Fin a) y = y"

definition np_sub :: "npfloat \<Rightarrow> npfloat \<Rightarrow> npfloat" where
  "np_sub x y = np_add x (np_neg y)"

fun np_mul :: "npfloat \<Rightarrow> npfloat \<Rightarrow> npfloat" where
  "np_mul NaN y = NaN"
| "np_mul x NaN = NaN"
| "np_mul (Fin a) (Fin b) = Fin (a * b)"
| "np_mul (Fin a) PInf = (if a = 0 then NaN else if 0 < a then PInf else NInf)"
| "np_mul (Fin a) NInf = (if a = 0 then NaN else if 0 < a then NInf else PInf)"
| "np_mul PInf (Fin b) = (if b = 0 then NaN else if 0 < b then PInf else NInf)"
| "np_mul NInf (Fin b) = (if b = 0 then NaN else if 0 < b then NInf else PInf)"
| "np_mul PInf PInf = PInf"
| "np_mul NInf NInf = PInf"
| "np_mul PInf NInf = NInf"
| "np_mul NInf PInf = NInf"

text \<open>
  Rounding of a real number to binary64, to nearest with ties to even: 53 significant
  bits, exponents from -1022 (below it the spacing stays \<open>2 ^ -1074\<close>), and an infinity
  when the rounded magnitude reaches \<open>2 ^ 1024\<close>.
\<close>

definition round_half_even :: "real \<Rightarrow> int" where
  "round_half_even x =
     (let f = \<lfloor>x\<rfloor> in
      if x - of_int f < 1 / 2 then f
      else if 1 / 2 < x - of_int f then f + 1
      else if even f then f else f + 1)"

definition float64_exponent :: "real \<Rightarrow> int" where
  "float64_exponent x = max \<lfloor>log 2 \<bar>x\<bar>\<rfloor> (- 1022)"

definition float64_ulp :: "real \<Rightarrow> real" where
  "float64_ulp x = 2 powr of_int (float64_exponent x - 52)"

definition float64 :: "real \<Rightarrow> npfloat" where
  "float64 x =
     (if x = 0 then Fin 0
      else
        (let q = of_int (round_half_even (x / float64_ulp x)) * float64_ulp x in
         if 2 ^ 1024 \<le> \<bar>q\<bar> then (if 0 < x then PInf else NInf) else Fin q))"

text \<open>
  Division of two float64 scalars, rounded; a finite divisor 0 counts as positive zero.
\<close>

fun np_fdiv :: "npfloat \<Rightarrow> npfloat \<Rightarrow> npfloat" where
  "np_fdiv NaN y = NaN"
| "np_fdiv x NaN = NaN"
| "np_fdiv (Fin a) (Fin b) =
     (if b \<noteq> 0 then float64 (a / b)
      else if a = 0 then NaN
      else if 0 < a then PInf else NInf)"
| "np_fdiv (Fin a) y = Fin 0"
| "np_fdiv PInf (Fin b) = (if 0 \<le> b then PInf else NInf)"
| "np_fdiv NInf (Fin b) = (if 0 \<le> b then NInf else PInf)"
| "np_fdiv x y = NaN"

text \<open>Comparisons with a finite number; every comparison with NaN is false.\<close>

fun np_gt :: "npfloat \<Rightarrow> real \<Rightarrow> bool" where
  "np_gt (Fin a) c = (c < a)"
| "np_gt PInf c = True"
| "np_gt NInf c = False"
| "np_gt NaN c = False"

fun np_ge :: "npfloat \<Rightarrow> real \<Rightarrow> bool" where
  "np_ge (Fin a) c = (c \<le> a)"
| "np_ge PInf c = True"
| "np_ge NInf c = False"
| "np_ge NaN c = False"

fun np_le :: "npfloat \<Rightarrow> real \<Rightarrow> bool" where
  "np_le (Fin a) c = (a \<le> c)"
| "np_le PInf c = False"
| "np_le NInf c = True"
| "np_le NaN c = False"


text \<open>\<open>Series.fillna(v)\<close>: NaN is replaced, every other value stays.\<close>

fun fillna :: "real \<Rightarrow> npfloat \<Rightarrow> npfloat" where
  "fillna v NaN = Fin v"
| "fillna v x = x"

text \<open>\<open>Series.max()\<close> and \<open>Series.min()\<close>: NaN on an empty selection.\<close>

fun series_max :: "real list \<Rightarrow> npfloat" where
  "series_max [] = NaN"
| "series_max (x # xs) = Fin (fold max xs x)"

fun series_min :: "real list \<Rightarrow> npfloat" where
  "series_min [] = NaN"
| "series_min (x # xs) = Fin (fold min xs x)"

definition mean :: "real list \<Rightarrow> real" where
  "mean xs = sum_list xs / real (length xs)"

text \<open>
  The last value of \<open>x.expanding().std()\<close>: the sample standard deviation (one degree of
  freedom removed) of the observations so far, NaN for fewer than two of them.
\<close>

definition expanding_std :: "real list \<Rightarrow> npfloat" where
  "expanding_std xs =
     (if length xs < 2 then NaN
      else Fin (sqrt (sum_list (map (\<lambda>x. (x - mean xs) ^ 2) xs) / real (length xs - 1))))"


section \<open>calculation.py: sessions, VWAP bands and the label at the target time\<close>

text \<open>
  A time of day is \<open>(hour, minute, second, microsecond)\<close>, compared as Python compares
  \<open>datetime.time\<close> values: lexicographically. A timestamp is the day number of its
  calendar date with its time of day; subtracting a number of days changes the date only.
  Day numbers are unbounded integers: the first and last day a pandas timestamp can hold
  are not modelled.
\<close>

type_synonym tod = "nat \<times> nat \<times> nat \<times> nat"
type_synonym timestamp = "int \<times> tod"

definition valid_time :: "tod \<Rightarrow> bool" where
  "valid_time t = (case t of (h, m, s, us) \<Rightarrow> h < 24 \<and> m < 60 \<and> s < 60 \<and> us < 1000000)"

definition micros :: "tod \<Rightarrow> nat" where
  "micros t = (case t of (h, m, s, us) \<Rightarrow> ((h * 60 + m) * 60 + s) * 1000000 + us)"

definition dt_date :: "timestamp \<Rightarrow> int" where
  "dt_date dt = fst dt"

definition dt_time :: "timestamp \<Rightarrow> tod" where
  "dt_time dt = snd dt"

definition minus_days :: "timestamp \<Rightarrow> int \<Rightarrow> timestamp" where
  "minus_days dt n = (fst dt - n, snd dt)"

text \<open>
  One row of the frame after STEP A: the index (\<open>datetime\<close>) and the five columns.
  \<open>Volume\<close> is an int64: its value is \<open>sint\<close> of the word, and sums of volumes wrap.
\<close>

definition volume_value :: "64 word \<Rightarrow> real" where
  "volume_value v = real_of_int (sint v)"

record bar =
  datetime :: timestamp
  Open :: real
  High :: real
  Low :: real
  Close :: real
  Volume :: "64 word"

record row = bar +
  date :: int
  time :: tod
  session :: int
  typical_price :: real
  cum_count :: nat
  cum_tp_volume :: real
  cum_volume :: "64 word"
  VWAP :: npfloat
  session_std :: npfloat
  vwap_upper :: npfloat
  vwap_lower :: npfloat
  target_label :: "string option"

definition nine_thirty :: tod where
  "nine_thirty = (9, 30, 0, 0)"

definition assign_session :: "timestamp \<Rightarrow> int" where
  "assign_session dt =
     (if dt_time dt \<ge> nine_thirty then dt_date dt
      else dt_date (minus_days dt 1))"

text \<open>
  STEP B: the rows of the last \<open>days_back\<close> calendar days. The frame arrives sorted by
  its index; an empty frame has no rows to keep.
\<close>

definition filter_days :: "bar list \<Rightarrow> int \<Rightarrow> bar list" where
  "filter_days df days_back =
     (case map datetime df of
        [] \<Rightarrow> []
      | d # ds \<Rightarrow>
          (let last_dt = fold max ds d;
               cutoff_dt = minus_days last_dt days_back
           in filter (\<lambda>b. datetime b \<ge> cutoff_dt) df))"

definition session_col :: "bar list \<Rightarrow> int list" where
  "session_col df = map (\<lambda>b. assign_session (datetime b)) df"

definition typical_price_of :: "bar \<Rightarrow> real" where
  "typical_price_of b = (High b + Low b + Close b) / 3"

text \<open>
  \<open>groupby(key)\<close> followed by a cumulative or expanding operation gives, at row \<open>i\<close>, the
  operation on the values of the rows up to and including \<open>i\<close> that have the key of
  row \<open>i\<close>, in the order of the frame.
\<close>

definition group_upto :: "'k list \<Rightarrow> 'a list \<Rightarrow> nat \<Rightarrow> 'a list" where
  "group_upto ks vs i = map snd (filter (\<lambda>kv. fst kv = ks ! i) (take (Suc i) (zip ks vs)))"

definition cum_count_at :: "bar list \<Rightarrow> nat \<Rightarrow> nat" where
  "cum_count_at df i = length (group_upto (session_col df) df i)"

definition cum_tp_volume_at :: "bar list \<Rightarrow> nat \<Rightarrow> real" where
  "cum_tp_volume_at df i =
     sum_list (group_upto (session_col df)
                 (map (\<lambda>b. typical_price_of b * volume_value (Volume b)) df) i)"

text \<open>The int64 cumulative sum: the sum of 64-bit words, which wraps around.\<close>

definition cum_volume_at :: "bar list \<Rightarrow> nat \<Rightarrow> 64 word" where
  "cum_volume_at df i = sum_list (group_upto (session_col df) (map Volume df) i)"

definition VWAP_at :: "bar list \<Rightarrow> nat \<Rightarrow> npfloat" where
  "VWAP_at df i = np_div (cum_tp_volume_at df i) (volume_value (cum_volume_at df i))"

definition session_std_at :: "bar list \<Rightarrow> nat \<Rightarrow> npfloat" where
  "session_std_at df i =
     (if dt_time (datetime (df ! i)) < nine_thirty then Fin 0
      else fillna 0 (expanding_std (group_upto (session_col df) (map typical_price_of df) i)))"

text \<open>
  STEP E: the label of one session at the target time. The maximum and minimum of an
  empty selection are NaN, every comparison with NaN is false, and the function then
  falls through to its last branch; with a bar at the target time the selection is never
  empty. The daily aggregates computed after the labels are only printed and are left out.
\<close>

definition label_intraday_state :: "bar list \<Rightarrow> tod \<Rightarrow> (timestamp \<times> string) option" where
  "label_intraday_state session_df check_time =
     (let target_bar = filter (\<lambda>b. dt_time (datetime b) = check_time) session_df in
      if target_bar = [] then None
      else
        (let selected_bar = last target_bar;
             final_dt = datetime selected_bar;
             session_up_to_check = filter (\<lambda>b. dt_time (datetime b) \<le> check_time) session_df;
             final_close = Close selected_bar
         in case (series_max (map High session_up_to_check),
                  series_min (map Low session_up_to_check)) of
              (Fin high, Fin low) \<Rightarrow>
                (let rng = float64 (high - low) in
                 if rng = Fin 0 then Some (final_dt, ''neutral'')
                 else
                   (let position = np_fdiv (float64 (final_close - low)) rng in
                    if np_ge position 0.75 then Some (final_dt, ''high'')
                    else if np_le position 0.25 then Some (final_dt, ''low'')
                    else Some (final_dt, ''neutral'')))
            | _ \<Rightarrow> Some (final_dt, ''neutral'')))"

text \<open>
  The dictionary from the timestamp of each session's target bar to its label, filled in
  the order in which \<open>groupby\<close> yields the sessions (ascending keys).
\<close>

definition target_time_labels :: "bar list \<Rightarrow> tod \<Rightarrow> (timestamp \<rightharpoonup> string)" where
  "target_time_labels df target_time_obj =
     fold (\<lambda>session_key labels.
             case label_intraday_state
                    (filter (\<lambda>b. assign_session (datetime b) = session_key) df)
                    target_time_obj of
               None \<Rightarrow> labels
             | Some (bar_dt, label) \<Rightarrow> labels(bar_dt \<mapsto> label))
          (sort (remdups (session_col df))) Map.empty"

definition enrich_row :: "bar list \<Rightarrow> tod \<Rightarrow> nat \<Rightarrow> row" where
  "enrich_row df target_time_obj i =
     (let b = df ! i in
      \<lparr> datetime = datetime b, Open = Open b, High = High b, Low = Low b,
        Close = Close b, Volume = Volume b,
        date = dt_date (datetime b),
        time = dt_time (datetime b),
        session = session_col df ! i,
        typical_price = typical_price_of b,
        cum_count = cum_count_at df i,
        cum_tp_volume = cum_tp_volume_at df i,
        cum_volume = cum_volume_at df i,
        VWAP = VWAP_at df i,
        session_std = session_std_at df i,
        vwap_upper = np_add (VWAP_at df i) (np_mul (Fin 2) (session_std_at df i)),
        vwap_lower = np_sub (VWAP_at df i) (np_mul (Fin 2) (session_std_at df i)),
        target_label = target_time_labels df target_time_obj (datetime b) \<rparr>)"

text \<open>STEPS C to E on the filtered frame, one output row for each of its rows.\<close>

definition enrich :: "bar list \<Rightarrow> tod \<Rightarrow> row list" where
  "enrich df target_time_obj = map (enrich_row df target_time_obj) [0..<length df]"

definition process_data :: "bar list \<Rightarrow> int \<Rightarrow> tod \<Rightarrow> row list" where
  "process_data df days_back target_time_obj = enrich (filter_days df days_back) target_time_obj"



section \<open>scenarios/trade_buffer.py: one trade per session and the winning streaks\<close>

definition buffer :: real where
  "buffer = 10"

text \<open>
  A row of the session frame handed to \<open>analyze_session\<close>, with the columns it reads.
  \<open>time_str\<close> is the column the function derives first (the \<open>time\<close> column as
  \<open>HH:MM:SS\<close> text); a missing \<open>target_label\<close> (NaN) is \<open>None\<close>.
\<close>

record trade_row =
  time_str :: string
  tr_target_label :: "string option"
  tr_vwap_upper :: npfloat
  tr_vwap_lower :: npfloat
  tr_Close :: real

record session_result =
  res_session :: string
  res_target_label :: string
  entry_price :: npfloat
  price_15 :: real
  profit_15 :: npfloat
  profitable_15 :: bool
  price_16 :: real
  profit_16 :: npfloat
  profitable_16 :: bool

text \<open>\<open>str.lower()\<close> on the letters A to Z; every other byte stays.\<close>

definition lower_char :: "char \<Rightarrow> char" where
  "lower_char c =
     (if (65::nat) \<le> of_char c \<and> of_char c \<le> (90::nat) then char_of (of_char c + (32::nat)) else c)"

definition lower :: "string \<Rightarrow> string" where
  "lower s = map lower_char s"

definition analyze_session :: "string \<Rightarrow> trade_row list \<Rightarrow> session_result option" where
  "analyze_session sess df =
     (let row_1230 = filter (\<lambda>r. time_str r = ''12:30:00'') df;
          row_1500 = filter (\<lambda>r. time_str r = ''15:00:00'') df;
          row_1600 = filter (\<lambda>r. time_str r = ''16:00:00'') df
      in case row_1230 of
           [] \<Rightarrow> None
         | entry_row # _ \<Rightarrow>
             (case tr_target_label entry_row of
                None \<Rightarrow> None
              | Some label \<Rightarrow>
                  (case (if lower label = ''high''
                           then Some (np_add (tr_vwap_upper entry_row) (Fin buffer))
                         else if lower label = ''low''
                           then Some (np_sub (tr_vwap_lower entry_row) (Fin buffer))
                         else None) of
                     None \<Rightarrow> None
                   | Some entry \<Rightarrow>
                       (case row_1500 of
                          [] \<Rightarrow> None
                        | r15 # _ \<Rightarrow>
                            (case row_1600 of
                               [] \<Rightarrow> None
                             | r16 # _ \<Rightarrow>
                                 (let price_1500 = tr_Close r15;
                                      price_1600 = tr_Close r16;
                                      p15 = (if lower label = ''high''
                                             then np_sub entry (Fin price_1500)
                                             else np_sub (Fin price_1500) entry);
                                      p16 = (if lower label = ''high''
                                             then np_sub entry (Fin price_1600)
                                             else np_sub (Fin price_1600) entry)
                                  in Some \<lparr> res_session = sess,
                                            res_target_label = label,
                                            entry_price = entry,
                                            price_15 = price_1500,
                                            profit_15 = p15,
                                            profitable_15 = np_gt p15 0,
                                            price_16 = price_1600,
                                            profit_16 = p16,
                                            profitable_16 = np_gt p16 0 \<rparr>))))))"

text \<open>The loop of \<open>main\<close>: the results of the sessions that have one, in order.\<close>

fun collect_results :: "(string \<times> trade_row list) list \<Rightarrow> session_result list" where
  "collect_results [] = []"
| "collect_results ((sess, df) # rest) =
     (case analyze_session sess df of
        None \<Rightarrow> collect_results rest
      | Some result \<Rightarrow> result # collect_results rest)"

datatype py_error = ValueError

text \<open>
  The loop of \<open>compute_winning_streaks\<close> over the sorted results, with its two
  variables \<open>streaks\<close> and \<open>current_streak\<close>.
\<close>

fun streak_loop :: "session_result list \<Rightarrow> nat list \<Rightarrow> nat \<Rightarrow> nat list \<times> nat" where
  "streak_loop [] streaks current_streak = (streaks, current_streak)"
| "streak_loop (res # rest) streaks current_streak =
     (if profitable_16 res then streak_loop rest streaks (current_streak + 1)
      else streak_loop rest
             (if current_streak > 0 then streaks @ [current_streak] else streaks) 0)"

definition winning_streaks :: "session_result list \<Rightarrow> nat list" where
  "winning_streaks sorted_results =
     (case streak_loop sorted_results [] 0 of
        (streaks, current_streak) \<Rightarrow>
          if current_streak > 0 then streaks @ [current_streak] else streaks)"

text \<open>
  \<open>strptime\<close> stands for \<open>datetime.strptime(s, "%Y-%m-%d")\<close>: \<open>None\<close> where it raises
  \<open>ValueError\<close>, and dates compare in their linear order. \<open>sorted\<close> maps the key
  function over every element first and then sorts stably. The result is
  \<open>(longest, average, shortest)\<close>.
\<close>

definition compute_winning_streaks ::
  "(string \<Rightarrow> 'd::linorder option) \<Rightarrow> session_result list \<Rightarrow> py_error + (nat \<times> real \<times> nat)" where
  "compute_winning_streaks strptime session_results =
     (if list_ex (\<lambda>x. strptime (res_session x) = None) session_results then Inl ValueError
      else
        (let sorted_results = sort_key (\<lambda>x. the (strptime (res_session x))) session_results;
             streaks = winning_streaks sorted_results
         in case streaks of
              [] \<Rightarrow> Inr (0, 0, 0)
            | s # ss \<Rightarrow>
                Inr (fold max ss s,
                     real (sum_list streaks) / real (length streaks),
                     fold min ss s)))"

text \<open>
  The part of \<open>main\<close> that leads to the streaks: the results are collected session by
  session and handed to \<open>compute_winning_streaks\<close>.
\<close>

definition main_winning_streaks ::
  "(string \<Rightarrow> 'd::linorder option) \<Rightarrow> (string \<times> trade_row list) list \<Rightarrow>
     py_error + (nat \<times> real \<times> nat)" where
  "main_winning_streaks strptime sessions =
     (let session_results = collect_results sessions
      in compute_winning_streaks strptime session_results)"

text \<open>
  The spec's words for a streak: a maximal run of consecutive profitable results, closed
  by a result that is not profitable or by the end of the sequence.
\<close>

function spec_streaks :: "bool list \<Rightarrow> nat list" where
  "spec_streaks [] = []"
| "spec_streaks (False # fs) = spec_streaks fs"
| "spec_streaks (True # fs) =
     Suc (length (takeWhile (\<lambda>b. b) fs)) # spec_streaks (dropWhile (\<lambda>b. b) fs)"
  by pat_completeness auto
termination
  by (relation "measure length") (auto simp: less_Suc_eq_le length_dropWhile_le)


section \<open>Worked examples\<close>

definition example_df :: "bar list" where
  "example_df =
     [\<lparr>datetime = (100, (8, 0, 0, 0)), Open = 10, High = 10, Low = 10, Close = 10, Volume = 4\<rparr>,
      \<lparr>datetime = (100, (9, 0, 0, 0)), Open = 10, High = 14, Low = 10, Close = 12, Volume = 1\<rparr>,
      \<lparr>datetime = (100, (9, 30, 0, 0)), Open = 10, High = 12, Low = 9, Close = 9, Volume = 0\<rparr>,
      \<lparr>datetime = (100, (12, 30, 0, 0)), Open = 9, High = 14, Low = 10, Close = 12, Volume = 5\<rparr>,
      \<lparr>datetime = (101, (9, 30, 0, 0)), Open = 12, High = 13, Low = 11, Close = 12, Volume = 2\<rparr>]"

definition example_time :: tod where
  "example_time = (12, 30, 0, 0)"

definition example_out :: "row list" where
  "example_out = process_data example_df 10 example_time"

text \<open>
  One session for the label: the bar after the target time has the highest high and the
  lowest low of the session and must not count.
\<close>

definition example_session :: "bar list" where
  "example_session =
     [\<lparr>datetime = (100, (9, 30, 0, 0)), Open = 10, High = 12, Low = 9, Close = 9, Volume = 3\<rparr>,
      \<lparr>datetime = (100, (12, 30, 0, 0)), Open = 9, High = 14, Low = 10, Close = 13, Volume = 5\<rparr>,
      \<lparr>datetime = (100, (13, 0, 0, 0)), Open = 13, High = 20, Low = 5, Close = 6, Volume = 2\<rparr>]"

text \<open>
  One bar whose prices are the binary64 numbers nearest to 143.7, 22.1 and 113.3: the
  exact quotient of the differences is above 0.75 and the rounded one is below it.
\<close>

definition threshold_session :: "bar list" where
  "threshold_session =
     [\<lparr>datetime = (100, (12, 30, 0, 0)), Open = 100,
       High = 2527997134582579 / 17592186044416,
       Low = 3110298492652749 / 140737488355328,
       Close = 7972778715329331 / 70368744177664, Volume = 1\<rparr>]"

definition example_flat_session :: "bar list" where
  "example_flat_session =
     [\<lparr>datetime = (100, (12, 30, 0, 0)), Open = 7, High = 7, Low = 7, Close = 7, Volume = 1\<rparr>]"

text \<open>
  Four bars of one session with volume \<open>2 ^ 62\<close> each: the int64 cumulative sum is
  \<open>2 ^ 64\<close>, which wraps to 0. Every price, product and sum of this frame is a power of
  two or three times one, so no float operation on it rounds.
\<close>

definition overflow_df :: "bar list" where
  "overflow_df =
     [\<lparr>datetime = (100, (10, 0, 0, 0)), Open = 1, High = 1, Low = 1, Close = 1,
       Volume = 4611686018427387904\<rparr>,
      \<lparr>datetime = (100, (10, 30, 0, 0)), Open = 1, High = 1, Low = 1, Close = 1,
       Volume = 4611686018427387904\<rparr>,
      \<lparr>datetime = (100, (11, 0, 0, 0)), Open = 1, High = 1, Low = 1, Close = 1,
       Volume = 4611686018427387904\<rparr>,
      \<lparr>datetime = (100, (11, 30, 0, 0)), Open = 1, High = 1, Low = 1, Close = 1,
       Volume = 4611686018427387904\<rparr>]"

definition overflow_out :: "row list" where
  "overflow_out = process_data overflow_df 10 example_time"

definition example_trade_df :: "trade_row list" where
  "example_trade_df =
     [\<lparr>time_str = ''12:30:00'', tr_target_label = Some ''high'',
       tr_vwap_upper = Fin 100, tr_vwap_lower = Fin 80, tr_Close = 98\<rparr>,
      \<lparr>time_str = ''15:00:00'', tr_target_label = None,
       tr_vwap_upper = Fin 101, tr_vwap_lower = Fin 81, tr_Close = 105\<rparr>,
      \<lparr>time_str = ''16:00:00'', tr_target_label = None,
       tr_vwap_upper = Fin 102, tr_vwap_lower = Fin 82, tr_Close = 95\<rparr>]"

definition example_long_df :: "trade_row list" where
  "example_long_df =
     [\<lparr>time_str = ''12:30:00'', tr_target_label = Some ''low'',
       tr_vwap_upper = Fin 70, tr_vwap_lower = Fin 50, tr_Close = 52\<rparr>,
      \<lparr>time_str = ''15:00:00'', tr_target_label = None,
       tr_vwap_upper = Fin 71, tr_vwap_lower = Fin 51, tr_Close = 40\<rparr>,
      \<lparr>time_str = ''16:00:00'', tr_target_label = None,
       tr_vwap_upper = Fin 72, tr_vwap_lower = Fin 52, tr_Close = 45\<rparr>]"

definition example_losing_df :: "trade_row list" where
  "example_losing_df =
     [\<lparr>time_str = ''12:30:00'', tr_target_label = Some ''high'',
       tr_vwap_upper = Fin 100, tr_vwap_lower = Fin 80, tr_Close = 98\<rparr>,
      \<lparr>time_str = ''15:00:00'', tr_target_label = None,
       tr_vwap_upper = Fin 101, tr_vwap_lower = Fin 81, tr_Close = 115\<rparr>,
      \<lparr>time_str = ''16:00:00'', tr_target_label = None,
       tr_vwap_upper = Fin 102, tr_vwap_lower = Fin 82, tr_Close = 120\<rparr>]"

text \<open>
  Five sessions, not in date order; the session of 28 January has no 12:30 row and so no
  result, the session of 30 January loses at 16:00.
\<close>

definition example_sessions :: "(string \<times> trade_row list) list" where
  "example_sessions =
     [(''2025-01-30'', example_losing_df), (''2025-01-27'', example_trade_df),
      (''2025-01-28'', []), (''2025-01-31'', example_trade_df),
      (''2025-01-29'', example_long_df)]"

text \<open>
  A reader of zero-padded \<open>YYYY-MM-DD\<close> strings, for the examples: on such strings it
  agrees with \<open>strptime\<close> up to the check of the day against the month's length.
\<close>

definition digit_val :: "char \<Rightarrow> nat option" where
  "digit_val c =
     (if (48::nat) \<le> of_char c \<and> of_char c \<le> (57::nat) then Some (of_char c - 48) else None)"

fun number :: "string \<Rightarrow> nat \<Rightarrow> nat option" where
  "number [] acc = Some acc"
| "number (c # cs) acc =
     (case digit_val c of None \<Rightarrow> None | Some d \<Rightarrow> number cs (10 * acc + d))"

definition example_strptime :: "string \<Rightarrow> (nat \<times> nat \<times> nat) option" where
  "example_strptime s =
     (if length s = 10 \<and> s ! 4 = CHR ''-'' \<and> s ! 7 = CHR ''-'' then
        (case (number (take 4 s) 0, number (take 2 (drop 5 s)) 0, number (drop 8 s) 0) of
           (Some y, Some m, Some d) \<Rightarrow>
             if 1 \<le> m \<and> m \<le> 12 \<and> 1 \<le> d \<and> d \<le> 31 then Some (y, m, d) else None
         | _ \<Rightarrow> None)
      else None)"

definition example_result :: "string \<Rightarrow> real \<Rightarrow> session_result" where
  "example_result sess p16 =
     \<lparr> res_session = sess, res_target_label = ''high'', entry_price = Fin 110,
       price_15 = 105, profit_15 = Fin 5, profitable_15 = True,
       price_16 = 110 - p16, profit_16 = Fin p16, profitable_16 = (0 < p16) \<rparr>"

definition example_losing_results :: "session_result list" where
  "example_losing_results =
     [example_result ''2025-01-28'' 0, example_result ''2025-01-27'' (-2)]"



section \<open>Properties of calculation.py\<close>


lemma take_as_map_nth: "n \<le> length xs \<Longrightarrow> take n xs = map ((!) xs) [0..<n]"
proof -
  assume n: "n \<le> length xs"
  have "take n xs = map ((!) (take n xs)) [0..<length (take n xs)]"
    by (simp only: map_nth)
  also have "\<dots> = map ((!) xs) [0..<n]"
    using n by (intro map_cong) (auto simp: min_def)
  finally show ?thesis .
qed

lemma group_upto_index:
  assumes "i < length ks" and "length vs = length ks"
  shows "group_upto ks vs i = map ((!) vs) (filter (\<lambda>j. ks ! j = ks ! i) [0..<Suc i])"
proof -
  have le: "Suc i \<le> length (zip ks vs)" using assms by simp
  have "take (Suc i) (zip ks vs) = map ((!) (zip ks vs)) [0..<Suc i]"
    by (rule take_as_map_nth [OF le])
  also have "\<dots> = map (\<lambda>j. (ks ! j, vs ! j)) [0..<Suc i]"
    using assms by (intro map_cong) auto
  finally have t: "take (Suc i) (zip ks vs) = map (\<lambda>j. (ks ! j, vs ! j)) [0..<Suc i]" .
  show ?thesis
    unfolding group_upto_def t by (simp add: filter_map comp_def)
qed

lemma length_enrich: "length (enrich df tt) = length df"
  by (simp add: enrich_def)

lemma nth_enrich: "i < length df \<Longrightarrow> enrich df tt ! i = enrich_row df tt i"
  by (simp add: enrich_def)

lemma assign_session_cases:
  "(nine_thirty \<le> dt_time dt \<longrightarrow> assign_session dt = dt_date dt) \<and>
   (dt_time dt < nine_thirty \<longrightarrow> assign_session dt = dt_date dt - 1)"
  by (auto simp: assign_session_def minus_days_def dt_date_def)

lemma nine_thirty_micros:
  "valid_time t \<Longrightarrow> (nine_thirty \<le> t) = (34200000000 \<le> micros t)"
  apply (cases t)
  apply (auto simp: valid_time_def micros_def nine_thirty_def less_eq_prod_def)
  done


lemma enrich_row_fields:
  "session (enrich_row df tt i) = session_col df ! i"
  "datetime (enrich_row df tt i) = datetime (df ! i)"
  "time (enrich_row df tt i) = dt_time (datetime (df ! i))"
  "Volume (enrich_row df tt i) = Volume (df ! i)"
  "typical_price (enrich_row df tt i) = typical_price_of (df ! i)"
  "cum_count (enrich_row df tt i) = cum_count_at df i"
  "cum_tp_volume (enrich_row df tt i) = cum_tp_volume_at df i"
  "cum_volume (enrich_row df tt i) = cum_volume_at df i"
  "VWAP (enrich_row df tt i) = VWAP_at df i"
  "session_std (enrich_row df tt i) = session_std_at df i"
  "vwap_upper (enrich_row df tt i) = np_add (VWAP_at df i) (np_mul (Fin 2) (session_std_at df i))"
  "vwap_lower (enrich_row df tt i) = np_sub (VWAP_at df i) (np_mul (Fin 2) (session_std_at df i))"
  by (simp_all add: enrich_row_def Let_def)

lemma in_enrich:
  assumes "r \<in> set (enrich df tt)"
  obtains i where "i < length df" and "r = enrich_row df tt i"
  using assms by (auto simp: enrich_def)

lemma session_col_nth:
  "i < length df \<Longrightarrow> session_col df ! i = assign_session (datetime (df ! i))"
  by (simp add: session_col_def)

text \<open>
  Claim C4. \<open>assign_session\<close> returns the timestamp's own calendar date when its time of
  day is at or after 09:30 (34200 seconds, counted here in microseconds, after midnight)
  and the previous calendar date otherwise. Every row of the filtered frame gets one
  output row, and that row carries the session of its own timestamp.
\<close>

theorem assign_session_rule:
  "(\<forall>dt. valid_time (dt_time dt) \<longrightarrow>
      assign_session dt =
        (if 34200000000 \<le> micros (dt_time dt) then dt_date dt else dt_date dt - 1)) \<and>
   (\<forall>dt. (nine_thirty \<le> dt_time dt \<longrightarrow> assign_session dt = dt_date dt) \<and>
         (dt_time dt < nine_thirty \<longrightarrow> assign_session dt = dt_date dt - 1)) \<and>
   (\<forall>df days_back tt.
      length (process_data df days_back tt) = length (filter_days df days_back) \<and>
      (\<forall>r \<in> set (process_data df days_back tt). session r = assign_session (datetime r)))"
proof (intro conjI allI impI ballI)
  fix dt :: timestamp
  assume "valid_time (dt_time dt)"
  from nine_thirty_micros [OF this] assign_session_cases [of dt]
  show "assign_session dt =
        (if 34200000000 \<le> micros (dt_time dt) then dt_date dt else dt_date dt - 1)"
    by (auto simp: not_le)
next
  fix dt :: timestamp
  assume "nine_thirty \<le> dt_time dt"
  then show "assign_session dt = dt_date dt" using assign_session_cases by blast
next
  fix dt :: timestamp
  assume "dt_time dt < nine_thirty"
  then show "assign_session dt = dt_date dt - 1" using assign_session_cases by blast
next
  fix df days_back tt
  show "length (process_data df days_back tt) = length (filter_days df days_back)"
    by (simp add: process_data_def length_enrich)
next
  fix df days_back tt r
  assume "r \<in> set (process_data df days_back tt)"
  then obtain i where "i < length (filter_days df days_back)"
    and "r = enrich_row (filter_days df days_back) tt i"
    unfolding process_data_def by (rule in_enrich)
  then show "session r = assign_session (datetime r)"
    by (simp add: enrich_row_fields session_col_nth)
qed

text \<open>
  Claim C6. Every emitted row whose time of day is strictly before 09:30 has
  \<open>session_std\<close> exactly 0, whichever session it belongs to.
\<close>

theorem pre_cutoff_session_std_zero:
  "\<forall>r \<in> set (process_data df days_back tt). time r < nine_thirty \<longrightarrow> session_std r = Fin 0"
proof (intro ballI impI)
  fix r
  assume "r \<in> set (process_data df days_back tt)" and lt: "time r < nine_thirty"
  then obtain i where "r = enrich_row (filter_days df days_back) tt i"
    unfolding process_data_def by (auto elim: in_enrich)
  with lt show "session_std r = Fin 0"
    by (simp add: enrich_row_fields session_std_at_def)
qed




lemma upt_split: "i \<le> j \<Longrightarrow> j \<le> k \<Longrightarrow> [i..<k] = [i..<j] @ [j..<k]"
  using upt_add_eq_append [of i j "k - j"] by simp

lemma group_upto_first:
  assumes "i < length ks" and "length vs = length ks" and "\<forall>j<i. ks ! j \<noteq> ks ! i"
  shows "group_upto ks vs i = [vs ! i]"
proof -
  have "filter (\<lambda>j. ks ! j = ks ! i) [0..<i] = []"
    using assms(3) by (simp add: filter_empty_conv)
  then show ?thesis
    using assms(1,2) by (simp add: group_upto_index)
qed

lemma group_upto_next:
  assumes "j < length ks" and "length vs = length ks" and "i < j" and "ks ! j = ks ! i"
    and "\<forall>k. i < k \<and> k < j \<longrightarrow> ks ! k \<noteq> ks ! i"
  shows "group_upto ks vs j = group_upto ks vs i @ [vs ! j]"
proof -
  have split: "[0..<Suc j] = [0..<Suc i] @ [Suc i..<j] @ [j]"
    using assms(3) upt_split [of 0 "Suc i" j] by simp
  have mid: "filter (\<lambda>k. ks ! k = ks ! i) [Suc i..<j] = []"
    using assms(5) by (simp add: filter_empty_conv)
  have i: "i < length ks" using assms(1,3) by simp
  show ?thesis
    using assms(1,2,4) i mid
    by (simp only: group_upto_index split filter_append map_append) simp
qed

lemma group_upto_last:
  assumes "i < length ks" and "length vs = length ks"
    and "\<forall>j. i < j \<and> j < length ks \<longrightarrow> ks ! j \<noteq> ks ! i"
  shows "length (group_upto ks vs i) = length (filter (\<lambda>k. k = ks ! i) ks)"
proof -
  have "ks = map ((!) ks) [0..<length ks]" by (simp only: map_nth)
  then have "filter (\<lambda>k. k = ks ! i) ks = map ((!) ks) (filter (\<lambda>j. ks ! j = ks ! i) [0..<length ks])"
    by (metis (mono_tags, lifting) filter_map comp_def filter_cong)
  moreover have "[0..<length ks] = [0..<Suc i] @ [Suc i..<length ks]"
    using assms(1) upt_split [of 0 "Suc i" "length ks"] by simp
  moreover have "filter (\<lambda>j. ks ! j = ks ! i) [Suc i..<length ks] = []"
    using assms(3) by (simp add: filter_empty_conv)
  ultimately have "length (filter (\<lambda>k. k = ks ! i) ks) = length (filter (\<lambda>j. ks ! j = ks ! i) [0..<Suc i])"
    by (metis append_Nil2 filter_append length_map)
  then show ?thesis using assms(1,2) by (simp add: group_upto_index)
qed


lemma process_data_nth:
  assumes "out = process_data df days_back tt" and "i < length out"
  shows "out ! i = enrich_row (filter_days df days_back) tt i"
    and "i < length (filter_days df days_back)"
  using assms by (simp_all add: process_data_def length_enrich nth_enrich)

lemma process_data_session_nth:
  assumes "out = process_data df days_back tt" and "i < length out"
  shows "session (out ! i) = session_col (filter_days df days_back) ! i"
  using process_data_nth [OF assms] by (simp add: enrich_row_fields)

lemma map_session_process_data:
  "map session (process_data df days_back tt) = session_col (filter_days df days_back)"
  by (rule nth_equalityI)
     (simp_all add: process_data_def length_enrich nth_enrich enrich_row_fields session_col_def)

lemma length_session_col [simp]: "length (session_col df) = length df"
  by (simp add: session_col_def)

text \<open>
  Claim C9. At the first row of every session \<open>session_std\<close> is exactly 0, and where the
  VWAP of that row is defined both bands equal it.
\<close>

theorem first_bar_session_std_zero:
  assumes "out = process_data df days_back tt"
  shows "\<forall>i<length out. (\<forall>j<i. session (out ! j) \<noteq> session (out ! i)) \<longrightarrow>
           session_std (out ! i) = Fin 0 \<and>
           (\<forall>v. VWAP (out ! i) = Fin v \<longrightarrow>
                vwap_upper (out ! i) = Fin v \<and> vwap_lower (out ! i) = Fin v)"
proof (intro allI impI)
  fix i
  assume i: "i < length out" and first: "\<forall>j<i. session (out ! j) \<noteq> session (out ! i)"
  let ?F = "filter_days df days_back"
  note nth = process_data_nth [OF assms i]
  have "\<forall>j<i. session_col ?F ! j \<noteq> session_col ?F ! i"
    using first i process_data_session_nth [OF assms] by simp
  then have "group_upto (session_col ?F) (map typical_price_of ?F) i = [map typical_price_of ?F ! i]"
    using nth(2) by (intro group_upto_first) simp_all
  then have std: "session_std_at ?F i = Fin 0"
    by (simp add: session_std_at_def expanding_std_def)
  show "session_std (out ! i) = Fin 0 \<and>
        (\<forall>v. VWAP (out ! i) = Fin v \<longrightarrow>
             vwap_upper (out ! i) = Fin v \<and> vwap_lower (out ! i) = Fin v)"
    by (simp add: nth(1) enrich_row_fields std np_sub_def)
qed

text \<open>
  Claim C7. At the first row of a session the three cumulative columns hold the row's
  own contribution (\<open>cum_count\<close> is 1); from one row of a session to the next row of the
  same session \<open>cum_count\<close> grows by exactly 1 and the two sums grow by the new row's
  contribution; at the last row of a session \<open>cum_count\<close> is the number of rows assigned
  to that session.
\<close>

theorem cum_count_within_session:
  assumes "out = process_data df days_back tt"
  shows "(\<forall>i<length out. (\<forall>j<i. session (out ! j) \<noteq> session (out ! i)) \<longrightarrow>
            cum_count (out ! i) = 1 \<and>
            cum_tp_volume (out ! i) = typical_price (out ! i) * volume_value (Volume (out ! i)) \<and>
            cum_volume (out ! i) = Volume (out ! i)) \<and>
         (\<forall>i j. i < j \<and> j < length out \<and> session (out ! j) = session (out ! i) \<and>
                (\<forall>k. i < k \<and> k < j \<longrightarrow> session (out ! k) \<noteq> session (out ! i)) \<longrightarrow>
            cum_count (out ! j) = cum_count (out ! i) + 1 \<and>
            cum_tp_volume (out ! j) = cum_tp_volume (out ! i) + typical_price (out ! j) * volume_value (Volume (out ! j)) \<and>
            cum_volume (out ! j) = cum_volume (out ! i) + Volume (out ! j)) \<and>
         (\<forall>i<length out. (\<forall>j. i < j \<and> j < length out \<longrightarrow> session (out ! j) \<noteq> session (out ! i)) \<longrightarrow>
            cum_count (out ! i) = length (filter (\<lambda>r. session r = session (out ! i)) out))"
proof (intro conjI allI impI)
  let ?F = "filter_days df days_back"
  let ?ks = "session_col ?F"
  have len: "length out = length ?F"
    using assms by (simp add: process_data_def length_enrich)
  {
    fix i
    assume i: "i < length out" and first: "\<forall>j<i. session (out ! j) \<noteq> session (out ! i)"
    note nth = process_data_nth [OF assms i]
    have f: "\<forall>j<i. ?ks ! j \<noteq> ?ks ! i"
      using first i process_data_session_nth [OF assms] by simp
    have g: "\<And>vs. length vs = length ?F \<Longrightarrow> group_upto ?ks vs i = [vs ! i]"
      using nth(2) f by (intro group_upto_first) simp_all
    show "cum_count (out ! i) = 1"
      by (simp add: nth(1) enrich_row_fields cum_count_at_def g)
    show "cum_tp_volume (out ! i) = typical_price (out ! i) * volume_value (Volume (out ! i))"
      using nth(2) by (simp add: nth(1) enrich_row_fields cum_tp_volume_at_def g)
    show "cum_volume (out ! i) = Volume (out ! i)"
      using nth(2) by (simp add: nth(1) enrich_row_fields cum_volume_at_def g)
  }
  {
    fix i j
    assume h: "i < j \<and> j < length out \<and> session (out ! j) = session (out ! i) \<and>
                (\<forall>k. i < k \<and> k < j \<longrightarrow> session (out ! k) \<noteq> session (out ! i))"
    then have j: "j < length out" and i: "i < length out" and ij: "i < j" by simp_all
    note nj = process_data_nth [OF assms j]
    note ni = process_data_nth [OF assms i]
    have same: "?ks ! j = ?ks ! i"
      using h process_data_session_nth [OF assms] i j by simp
    have between: "\<forall>k. i < k \<and> k < j \<longrightarrow> ?ks ! k \<noteq> ?ks ! i"
    proof (intro allI impI)
      fix k assume k: "i < k \<and> k < j"
      then have kl: "k < length out" using j by simp
      have "session (out ! k) \<noteq> session (out ! i)" using h k by blast
      then show "?ks ! k \<noteq> ?ks ! i"
        using process_data_session_nth [OF assms kl] process_data_session_nth [OF assms i]
        by simp
    qed
    have g: "\<And>vs. length vs = length ?F \<Longrightarrow> group_upto ?ks vs j = group_upto ?ks vs i @ [vs ! j]"
      using nj(2) ij same between by (intro group_upto_next) simp_all
    show "cum_count (out ! j) = cum_count (out ! i) + 1"
      by (simp add: nj(1) ni(1) enrich_row_fields cum_count_at_def g)
    show "cum_tp_volume (out ! j) = cum_tp_volume (out ! i) + typical_price (out ! j) * volume_value (Volume (out ! j))"
      using nj(2) by (simp add: nj(1) ni(1) enrich_row_fields cum_tp_volume_at_def g)
    show "cum_volume (out ! j) = cum_volume (out ! i) + Volume (out ! j)"
      using nj(2) by (simp add: nj(1) ni(1) enrich_row_fields cum_volume_at_def g)
  }
  {
    fix i
    assume i: "i < length out"
      and last: "\<forall>j. i < j \<and> j < length out \<longrightarrow> session (out ! j) \<noteq> session (out ! i)"
    note nth = process_data_nth [OF assms i]
    have l: "\<forall>j. i < j \<and> j < length ?ks \<longrightarrow> ?ks ! j \<noteq> ?ks ! i"
      using last i len process_data_session_nth [OF assms] by simp
    have "length (group_upto ?ks ?F i) = length (filter (\<lambda>k. k = ?ks ! i) ?ks)"
      using nth(2) l by (intro group_upto_last) simp_all
    also have "\<dots> = length (filter (\<lambda>k. k = ?ks ! i) (map session out))"
      using assms by (simp add: map_session_process_data)
    also have "\<dots> = length (filter (\<lambda>r. session r = session (out ! i)) out)"
      using process_data_session_nth [OF assms i] by (simp add: filter_map comp_def)
    finally show "cum_count (out ! i) = length (filter (\<lambda>r. session r = session (out ! i)) out)"
      by (simp add: nth(1) enrich_row_fields cum_count_at_def)
  }
qed

lemma set_filter_days: "set (filter_days df days_back) \<subseteq> set df"
  by (auto simp: filter_days_def Let_def split: list.splits)

lemma sum_list_filter_le_int:
  fixes g :: "'a \<Rightarrow> int"
  assumes "\<forall>x\<in>set xs. 0 \<le> g x"
  shows "sum_list (map g (filter P xs)) \<le> sum_list (map g xs)"
  using assms by (induction xs) auto

lemma sint_sum_list_nonneg:
  fixes ws :: "64 word list"
  assumes "\<forall>w\<in>set ws. 0 \<le> sint w" and "sum_list (map sint ws) < 2 ^ 63"
  shows "sint (sum_list ws) = sum_list (map sint ws)"
  using assms
proof (induction ws)
  case Nil
  then show ?case by simp
next
  case (Cons w ws)
  have nn: "0 \<le> sum_list (map sint ws)"
    using Cons.prems(1) by (intro sum_list_nonneg) auto
  have w0: "0 \<le> sint w" using Cons.prems(1) by simp
  have "sum_list (map sint ws) < 2 ^ 63" using Cons.prems(2) w0 by simp
  then have ih: "sint (sum_list ws) = sum_list (map sint ws)"
    using Cons.IH Cons.prems(1) by simp
  have "sint (w + sum_list ws) = signed_take_bit (LENGTH(64) - 1) (sint w + sint (sum_list ws))"
    by (rule sint_word_add)
  also have "\<dots> = sint w + sint (sum_list ws)"
    using Cons.prems(2) w0 nn by (intro signed_take_bit_int_eq_self) (simp_all add: ih)
  finally show ?case by (simp add: ih)
qed

lemma filter_days_volume_total:
  assumes "\<forall>b\<in>set df. 0 \<le> sint (Volume b)"
  shows "sum_list (map (\<lambda>b. sint (Volume b)) (filter_days df days_back)) \<le>
         sum_list (map (\<lambda>b. sint (Volume b)) df)"
  using assms
  by (auto simp: filter_days_def Let_def split: list.splits intro!: sum_list_filter_le_int)

lemma zero_cum_volume_zero_cum_tp_volume:
  assumes "i < length df" and "\<forall>b\<in>set df. 0 \<le> sint (Volume b)"
    and "sum_list (map (\<lambda>b. sint (Volume b)) df) < 2 ^ 63"
    and "cum_volume_at df i = 0"
  shows "cum_tp_volume_at df i = 0"
proof -
  define J where "J = filter (\<lambda>j. session_col df ! j = session_col df ! i) [0..<Suc i]"
  have J: "j < length df" if "j \<in> set J" for j
    using that assms(1) by (auto simp: J_def)
  have g: "group_upto (session_col df) vs i = map ((!) vs) J" if "length vs = length df" for vs
    unfolding J_def using assms(1) that by (intro group_upto_index) simp_all
  have mv: "map ((!) (map Volume df)) J = map (\<lambda>j. Volume (df ! j)) J"
    by (rule map_cong) (simp_all add: J)
  have cv: "cum_volume_at df i = sum_list (map (\<lambda>j. Volume (df ! j)) J)"
    using g [of "map Volume df"] by (simp add: cum_volume_at_def mv)
  have nonneg: "\<forall>w\<in>set (map (\<lambda>j. Volume (df ! j)) J). 0 \<le> sint w"
    using assms(2) J by auto
  have "sum_list (map (\<lambda>j. sint (Volume (df ! j))) J) \<le>
        sum_list (map (\<lambda>j. sint (Volume (df ! j))) [0..<Suc i])"
    unfolding J_def using assms(1,2) by (intro sum_list_filter_le_int) auto
  also have "\<dots> \<le> sum_list (map (\<lambda>j. sint (Volume (df ! j))) [0..<length df])"
  proof -
    have "[0..<length df] = [0..<Suc i] @ [Suc i..<length df]"
      using assms(1) upt_split [of 0 "Suc i" "length df"] by simp
    moreover have "0 \<le> sum_list (map (\<lambda>j. sint (Volume (df ! j))) [Suc i..<length df])"
      using assms(2) by (intro sum_list_nonneg) auto
    ultimately show ?thesis by simp
  qed
  also have "\<dots> = sum_list (map (\<lambda>b. sint (Volume b)) df)"
  proof -
    have "map (\<lambda>j. sint (Volume (df ! j))) [0..<length df] =
          map (\<lambda>b. sint (Volume b)) (map ((!) df) [0..<length df])"
      by simp
    then show ?thesis by (simp only: map_nth)
  qed
  finally have bound: "sum_list (map sint (map (\<lambda>j. Volume (df ! j)) J)) < 2 ^ 63"
    using assms(3) by (simp add: comp_def)
  have "sint (sum_list (map (\<lambda>j. Volume (df ! j)) J)) =
        sum_list (map sint (map (\<lambda>j. Volume (df ! j)) J))"
    by (rule sint_sum_list_nonneg [OF nonneg bound])
  then have sum0: "sum_list (map sint (map (\<lambda>j. Volume (df ! j)) J)) = 0"
    using assms(4) cv by simp
  have "\<forall>x\<in>set (map sint (map (\<lambda>j. Volume (df ! j)) J)). x = 0"
    using sum0 sum_list_nonneg_eq_0_iff [of "map sint (map (\<lambda>j. Volume (df ! j)) J)"] nonneg
    by auto
  then have vol0: "Volume (df ! j) = 0" if "j \<in> set J" for j
    using that by (auto simp: signed_eq_0_iff)
  have mt: "map ((!) (map (\<lambda>b. typical_price_of b * volume_value (Volume b)) df)) J =
            map (\<lambda>j. 0) J"
    by (rule map_cong) (simp_all add: J vol0 volume_value_def)
  have "cum_tp_volume_at df i =
        sum_list (map ((!) (map (\<lambda>b. typical_price_of b * volume_value (Volume b)) df)) J)"
    by (simp add: cum_tp_volume_at_def g)
  then have "cum_tp_volume_at df i = sum_list (map (\<lambda>j. 0 :: real) J)"
    by (simp only: mt)
  then show ?thesis by simp
qed


text \<open>
  Claim C5, amended. With volumes that are not negative and whose total stays below
  \<open>2 ^ 63\<close>, so that no int64 cumulative sum wraps, a row whose \<open>cum_volume\<close> is 0 gets
  the VWAP NaN, not 0. The division is total: every row of the filtered frame is emitted
  with the quotient of its two cumulative columns as VWAP.
\<close>

theorem zero_cum_volume_nan_without_overflow:
  assumes "out = process_data df days_back tt"
    and "\<forall>b\<in>set df. 0 \<le> sint (Volume b)"
    and "sum_list (map (\<lambda>b. sint (Volume b)) df) < 2 ^ 63"
  shows "length out = length (filter_days df days_back) \<and>
         (\<forall>i<length out.
            VWAP (out ! i) = np_div (cum_tp_volume (out ! i)) (volume_value (cum_volume (out ! i))) \<and>
            (cum_volume (out ! i) = 0 \<longrightarrow> VWAP (out ! i) = NaN \<and> VWAP (out ! i) \<noteq> Fin 0))"
proof (intro conjI allI impI)
  let ?F = "filter_days df days_back"
  show "length out = length ?F"
    using assms(1) by (simp add: process_data_def length_enrich)
  have vol: "\<forall>b\<in>set ?F. 0 \<le> sint (Volume b)"
    using assms(2) set_filter_days by blast
  have tot: "sum_list (map (\<lambda>b. sint (Volume b)) ?F) < 2 ^ 63"
    using filter_days_volume_total [OF assms(2), of days_back] assms(3) by simp
  {
    fix i
    assume i: "i < length out"
    note nth = process_data_nth [OF assms(1) i]
    show "VWAP (out ! i) = np_div (cum_tp_volume (out ! i)) (volume_value (cum_volume (out ! i)))"
      by (simp add: nth(1) enrich_row_fields VWAP_at_def)
  }
  {
    fix i
    assume i: "i < length out" and z: "cum_volume (out ! i) = 0"
    note nth = process_data_nth [OF assms(1) i]
    have cv: "cum_volume_at ?F i = 0" using z by (simp add: nth(1) enrich_row_fields)
    have "cum_tp_volume_at ?F i = 0"
      by (rule zero_cum_volume_zero_cum_tp_volume [OF nth(2) vol tot cv])
    with cv have v: "VWAP (out ! i) = NaN"
      by (simp add: nth(1) enrich_row_fields VWAP_at_def np_div_def volume_value_def)
    show "VWAP (out ! i) = NaN" by (rule v)
    show "VWAP (out ! i) \<noteq> Fin 0" by (simp add: v)
  }
qed


section \<open>The example frame, row by row\<close>

lemma filter_days_example: "filter_days example_df 10 = example_df"
  by (simp add: filter_days_def example_df_def minus_days_def Let_def)

lemma length_example_df: "length example_df = 5"
  by (simp add: example_df_def)

lemma length_example: "length (process_data example_df 10 example_time) = 5"
  by (simp add: process_data_def length_enrich filter_days_example length_example_df)

lemma length_example_out: "length example_out = 5"
  by (simp add: example_out_def length_example)


lemma session_col_example: "session_col example_df = [99, 99, 100, 100, 101]"
  by (simp add: session_col_def example_df_def assign_session_def dt_time_def dt_date_def
      minus_days_def nine_thirty_def)

lemma example_nth:
  "i < 5 \<Longrightarrow> example_out ! i = enrich_row example_df example_time i"
  by (simp add: example_out_def process_data_def filter_days_example nth_enrich length_example_df)

lemma example_sessions:
  "map session example_out = [99, 99, 100, 100, 101]"
  by (simp add: example_out_def map_session_process_data filter_days_example session_col_example)

lemmas example_eval = enrich_row_fields VWAP_at_def cum_volume_at_def cum_tp_volume_at_def
  cum_count_at_def session_std_at_def group_upto_def session_col_example np_div_def
  typical_price_of_def expanding_std_def mean_def dt_time_def nine_thirty_def np_sub_def
  volume_value_def

lemma example_row_1:
  "time (example_out ! 1) = (9, 0, 0, 0) \<and>
   session_std (example_out ! 1) = Fin 0 \<and>
   cum_count (example_out ! 1) = 2"
  by (simp add: example_nth example_eval) (simp add: example_df_def)

lemma example_row_2:
  "cum_volume (example_out ! 2) = 0 \<and>
   VWAP (example_out ! 2) = NaN \<and>
   cum_count (example_out ! 2) = 1"
  by (simp add: example_nth example_eval) (simp add: example_df_def)

lemma example_row_3:
  "cum_volume (example_out ! 3) = 5 \<and>
   VWAP (example_out ! 3) = Fin 12 \<and>
   session_std (example_out ! 3) = Fin (sqrt 2) \<and>
   vwap_upper (example_out ! 3) = Fin (12 + 2 * sqrt 2) \<and>
   cum_count (example_out ! 3) = 2"
  by (simp add: example_nth example_eval) (simp add: example_df_def typical_price_of_def power2_eq_square)

lemma example_row_4:
  "VWAP (example_out ! 4) = Fin 12 \<and>
   session_std (example_out ! 4) = Fin 0 \<and>
   cum_count (example_out ! 4) = 1"
  by (simp add: example_nth example_eval) (simp add: example_df_def)


lemma example_session_nth:
  "i < 5 \<Longrightarrow> session (example_out ! i) = [99, 99, 100, 100, 101] ! i"
  using example_sessions length_example_out by (metis nth_map)

lemma example_mem: "i < 5 \<Longrightarrow> example_out ! i \<in> set example_out"
  by (simp add: length_example_out)

theorem assign_session_rule_witness:
  "valid_time (dt_time (100, (8, 0, 0, 0))) \<and> assign_session (100, (8, 0, 0, 0)) = 99 \<and>
   valid_time (dt_time (100, (9, 30, 0, 0))) \<and> assign_session (100, (9, 30, 0, 0)) = 100 \<and>
   example_out ! 1 \<in> set example_out \<and> datetime (example_out ! 1) = (100, (9, 0, 0, 0)) \<and>
   session (example_out ! 1) = 99"
proof -
  have v1: "valid_time (dt_time (100, (8, 0, 0, 0)))"
    and v2: "valid_time (dt_time (100, (9, 30, 0, 0)))"
    by (simp_all add: valid_time_def dt_time_def)
  have rule: "valid_time (dt_time dt) \<longrightarrow>
      assign_session dt =
        (if 34200000000 \<le> micros (dt_time dt) then dt_date dt else dt_date dt - 1)"
    for dt using assign_session_rule by blast
  have a1: "assign_session (100, (8, 0, 0, 0)) = 99"
    using rule [of "(100, (8, 0, 0, 0))"] v1 by (simp add: micros_def dt_time_def dt_date_def)
  have a2: "assign_session (100, (9, 30, 0, 0)) = 100"
    using rule [of "(100, (9, 30, 0, 0))"] v2 by (simp add: micros_def dt_time_def dt_date_def)
  have mem: "example_out ! 1 \<in> set example_out" by (simp add: example_mem)
  have d: "datetime (example_out ! 1) = (100, (9, 0, 0, 0))"
    by (simp add: example_nth enrich_row_fields) (simp add: example_df_def)
  have "\<forall>r \<in> set (process_data example_df 10 example_time). session r = assign_session (datetime r)"
    using assign_session_rule by blast
  then have "session (example_out ! 1) = assign_session (datetime (example_out ! 1))"
    using mem by (simp add: example_out_def)
  then have "session (example_out ! 1) = assign_session (100, (9, 0, 0, 0))"
    by (simp only: d)
  then have s: "session (example_out ! 1) = 99"
    by (simp add: assign_session_def dt_time_def dt_date_def minus_days_def nine_thirty_def)
  show ?thesis using v1 v2 a1 a2 mem d s by simp
qed

theorem pre_cutoff_session_std_zero_witness:
  "example_out ! 1 \<in> set example_out \<and> time (example_out ! 1) < nine_thirty \<and>
   cum_count (example_out ! 1) = 2 \<and> session_std (example_out ! 1) = Fin 0"
proof -
  have mem: "example_out ! 1 \<in> set (process_data example_df 10 example_time)"
    using example_mem [of 1] by (simp add: example_out_def)
  have t: "time (example_out ! 1) < nine_thirty"
    using example_row_1 by (simp add: nine_thirty_def)
  from pre_cutoff_session_std_zero [of example_df 10 example_time] mem t
  have "session_std (example_out ! 1) = Fin 0" by blast
  then show ?thesis using mem t example_row_1 by (simp add: example_out_def)
qed



lemma example_sessions_before_4: "\<forall>j<4. session (example_out ! j) \<noteq> session (example_out ! 4)"
  by (auto simp: example_session_nth nth_Cons')

theorem first_bar_session_std_zero_witness:
  "4 < length example_out \<and> VWAP (example_out ! 4) = Fin 12 \<and>
   session_std (example_out ! 4) = Fin 0 \<and>
   vwap_upper (example_out ! 4) = Fin 12 \<and> vwap_lower (example_out ! 4) = Fin 12"
proof -
  have l: "4 < length example_out" by (simp add: length_example_out)
  have v: "VWAP (example_out ! 4) = Fin 12" using example_row_4 by simp
  from first_bar_session_std_zero [OF example_out_def] l example_sessions_before_4
  have "session_std (example_out ! 4) = Fin 0 \<and>
        (\<forall>v. VWAP (example_out ! 4) = Fin v \<longrightarrow>
             vwap_upper (example_out ! 4) = Fin v \<and> vwap_lower (example_out ! 4) = Fin v)"
    by blast
  with v l show ?thesis by blast
qed

theorem cum_count_within_session_witness:
  "cum_count (example_out ! 2) = 1 \<and>
   cum_count (example_out ! 3) = cum_count (example_out ! 2) + 1 \<and>
   cum_count (example_out ! 3) = length (filter (\<lambda>r. session r = session (example_out ! 3)) example_out) \<and>
   cum_count (example_out ! 3) = 2"
proof -
  note th = cum_count_within_session [OF example_out_def]
  have first: "\<forall>j<2. session (example_out ! j) \<noteq> session (example_out ! 2)"
    by (auto simp: example_session_nth nth_Cons')
  have l2: "2 < length example_out" and l3: "3 < length example_out"
    by (simp_all add: length_example_out)
  have same: "session (example_out ! 3) = session (example_out ! 2)"
    by (simp add: example_session_nth)
  have between: "\<forall>k. 2 < k \<and> k < 3 \<longrightarrow> session (example_out ! k) \<noteq> session (example_out ! 2)"
    by auto
  have last: "\<forall>j. 3 < j \<and> j < length example_out \<longrightarrow>
                session (example_out ! j) \<noteq> session (example_out ! 3)"
    by (auto simp: length_example_out example_session_nth nth_Cons')
  have c1: "cum_count (example_out ! 2) = 1"
    using th l2 first by blast
  have c2: "cum_count (example_out ! 3) = cum_count (example_out ! 2) + 1"
    using th [THEN conjunct2, THEN conjunct1, rule_format, of 2 3] l3 same between by simp
  have c3: "cum_count (example_out ! 3) =
            length (filter (\<lambda>r. session r = session (example_out ! 3)) example_out)"
    using th l3 last by blast
  show ?thesis using c1 c2 c3 by simp
qed

theorem zero_cum_volume_nan_without_overflow_witness:
  "list_all (\<lambda>b. 0 \<le> sint (Volume b)) example_df \<and>
   sum_list (map (\<lambda>b. sint (Volume b)) example_df) = 12 \<and>
   3 < length example_out \<and>
   cum_volume (example_out ! 2) = 0 \<and> VWAP (example_out ! 2) = NaN \<and>
   cum_volume (example_out ! 3) = 5 \<and> VWAP (example_out ! 3) = Fin 12"
proof -
  have vol: "\<forall>b\<in>set example_df. 0 \<le> sint (Volume b)" by (simp add: example_df_def)
  have tot: "sum_list (map (\<lambda>b. sint (Volume b)) example_df) = 12"
    by (simp add: example_df_def)
  have bound: "sum_list (map (\<lambda>b. sint (Volume b)) example_df) < 2 ^ 63"
    by (simp add: tot)
  note th = zero_cum_volume_nan_without_overflow [OF example_out_def vol bound]
  have l2: "2 < length example_out" and l3: "3 < length example_out"
    by (simp_all add: length_example_out)
  have z: "cum_volume (example_out ! 2) = 0" using example_row_2 by simp
  have nz: "cum_volume (example_out ! 3) = 5" using example_row_3 by simp
  have ctv: "cum_tp_volume (example_out ! 3) = 60"
    by (simp add: example_nth example_eval) (simp add: example_df_def typical_price_of_def)
  have n: "VWAP (example_out ! 2) = NaN" using th l2 z by blast
  have "VWAP (example_out ! 3) =
        np_div (cum_tp_volume (example_out ! 3)) (volume_value (cum_volume (example_out ! 3)))"
    using th l3 by blast
  then have f: "VWAP (example_out ! 3) = Fin 12"
    by (simp add: nz ctv volume_value_def np_div_def)
  show ?thesis using vol tot l3 z n nz f by (simp add: list_all_iff)
qed

lemma filter_days_overflow: "filter_days overflow_df 10 = overflow_df"
  by (simp add: filter_days_def overflow_df_def minus_days_def Let_def)

lemma session_col_overflow: "session_col overflow_df = [100, 100, 100, 100]"
  by (simp add: session_col_def overflow_df_def assign_session_def dt_time_def dt_date_def
      minus_days_def nine_thirty_def)

lemma overflow_nth:
  "i < 4 \<Longrightarrow> overflow_out ! i = enrich_row overflow_df example_time i"
  by (simp add: overflow_out_def process_data_def filter_days_overflow nth_enrich)
     (simp add: nth_enrich overflow_df_def)

theorem zero_cum_volume_overflow_counterexample:
  "list_all (\<lambda>b. 0 \<le> sint (Volume b)) overflow_df \<and>
   length overflow_out = 4 \<and>
   cum_volume (overflow_out ! 3) = 0 \<and>
   cum_tp_volume (overflow_out ! 3) = 18446744073709551616 \<and>
   VWAP (overflow_out ! 3) = PInf \<and>
   VWAP (overflow_out ! 3) \<noteq> NaN"
proof -
  have vol: "list_all (\<lambda>b. 0 \<le> sint (Volume b)) overflow_df"
    by (simp add: overflow_df_def)
  have len: "length overflow_out = 4"
    by (simp add: overflow_out_def process_data_def length_enrich filter_days_overflow)
       (simp add: overflow_df_def)
  have cv: "cum_volume (overflow_out ! 3) = 0"
    by (simp add: overflow_nth enrich_row_fields cum_volume_at_def group_upto_def
        session_col_overflow)
       (simp add: overflow_df_def)
  have ctv: "cum_tp_volume (overflow_out ! 3) = 18446744073709551616"
    by (simp add: overflow_nth enrich_row_fields cum_tp_volume_at_def group_upto_def
        session_col_overflow)
       (simp add: overflow_df_def typical_price_of_def volume_value_def)
  have v: "VWAP (overflow_out ! 3) = PInf"
    using cv ctv
    by (simp add: overflow_nth enrich_row_fields VWAP_at_def np_div_def volume_value_def)
  show ?thesis using vol len cv ctv v by simp
qed


section \<open>The label and the trade\<close>


lemma float64_zero: "float64 0 = Fin 0"
  by (simp add: float64_def)

lemma float64_eval:
  assumes lo: "2 powr of_int e \<le> \<bar>x\<bar>" and hi: "\<bar>x\<bar> < 2 powr of_int (e + 1)"
    and e: "- 1022 \<le> e" "e \<le> 1022"
    and m: "round_half_even (x / 2 powr of_int (e - 52)) = m"
    and fin: "\<bar>m\<bar> \<le> 2 ^ 53"
  shows "float64 x = Fin (of_int m * 2 powr of_int (e - 52))"
proof -
  have pos: "0 < \<bar>x\<bar>"
    using lo by (smt (verit) powr_gt_zero)
  then have x: "x \<noteq> 0" by simp
  have "\<lfloor>log 2 \<bar>x\<bar>\<rfloor> = e"
    using lo hi pos by (simp add: floor_log_eq_powr_iff)
  then have ex: "float64_exponent x = e"
    using e by (simp add: float64_exponent_def)
  have "\<bar>real_of_int m * 2 powr of_int (e - 52)\<bar> = \<bar>real_of_int m\<bar> * 2 powr of_int (e - 52)"
    by (simp add: abs_mult)
  also have "\<dots> \<le> 2 powr 53 * 2 powr of_int (e - 52)"
  proof -
    have "\<bar>real_of_int m\<bar> \<le> 2 ^ 53"
      using fin by (metis of_int_abs of_int_le_iff of_int_numeral of_int_power)
    then show ?thesis by (simp add: mult_right_mono)
  qed
  also have "\<dots> = 2 powr of_int (e + 1)"
  proof -
    have "(2::real) powr 53 * 2 powr of_int (e - 52) = 2 powr (53 + of_int (e - 52))"
      by (simp only: powr_add)
    moreover have "53 + real_of_int (e - 52) = of_int (e + 1)" by simp
    ultimately show ?thesis by (simp only:)
  qed
  also have "\<dots> \<le> 2 powr 1023"
    using e(2) by (intro powr_mono) simp_all
  also have "\<dots> < (2::real) powr 1024"
    by (intro powr_less_mono) simp_all
  finally have "\<bar>real_of_int m * 2 powr of_int (e - 52)\<bar> < 2 powr 1024" .
  moreover have "(2::real) powr 1024 = 2 ^ 1024"
    using powr_realpow [of "2::real" 1024] by simp
  ultimately have "\<bar>real_of_int m * 2 powr of_int (e - 52)\<bar> < 2 ^ 1024"
    by (simp only:)
  then have nfin: "\<not> 2 ^ 1024 \<le> \<bar>real_of_int m * 2 powr of_int (e - 52)\<bar>"
    by (simp only: not_le)
  show ?thesis
    unfolding float64_def float64_ulp_def ex Let_def m
    using x nfin by (simp only: if_False)
qed

lemma float64_5: "float64 5 = Fin 5"
  using float64_eval [of 2 5 "5 * 2 ^ 50"]
  by (simp add: powr_minus round_half_even_def)

lemma float64_4: "float64 4 = Fin 4"
  using float64_eval [of 2 4 "4 * 2 ^ 50"]
  by (simp add: powr_minus round_half_even_def)

lemma float64_four_fifths: "float64 (4 / 5) = Fin (3602879701896397 / 4503599627370496)"
  using float64_eval [of "-1" "4 / 5" 7205759403792794]
  by (simp add: powr_minus round_half_even_def)


lemma series_max_Max: "xs \<noteq> [] \<Longrightarrow> series_max xs = Fin (Max (set xs))"
  by (cases xs) (simp_all add: Max.set_eq_fold [symmetric])

lemma series_min_Min: "xs \<noteq> [] \<Longrightarrow> series_min xs = Fin (Min (set xs))"
  by (cases xs) (simp_all add: Min.set_eq_fold [symmetric])

text \<open>
  Claim C2. For a session with at least one bar exactly at the target time, the label is
  computed from \<open>high\<close>, the greatest High, and \<open>low\<close>, the least Low, of the session's
  bars whose time of day is at most the target time, and from the Close of the last bar
  exactly at the target time. With the float64 difference \<open>high - low\<close> as range and the
  float64 quotient of the float64 difference \<open>close - low\<close> by the range as position, the
  label is neutral when the range is 0, else high when the position is at least 0.75,
  low when it is at most 0.25, and neutral otherwise. Equal high and low give the range
  0, so that no quotient is formed and the label is neutral; for a finite difference and
  a finite range that is not 0 the position is their rounded quotient.
\<close>

theorem label_intraday_state_rule:
  assumes "filter (\<lambda>b. dt_time (datetime b) = check_time) session_df \<noteq> []"
    and "sel = last (filter (\<lambda>b. dt_time (datetime b) = check_time) session_df)"
    and "high = Max (set (map High (filter (\<lambda>b. dt_time (datetime b) \<le> check_time) session_df)))"
    and "low = Min (set (map Low (filter (\<lambda>b. dt_time (datetime b) \<le> check_time) session_df)))"
    and "rng = float64 (high - low)"
    and "position = np_fdiv (float64 (Close sel - low)) rng"
  shows "label_intraday_state session_df check_time =
           Some (datetime sel,
                 if rng = Fin 0 then ''neutral''
                 else if np_ge position 0.75 then ''high''
                 else if np_le position 0.25 then ''low''
                 else ''neutral'') \<and>
         (high = low \<longrightarrow>
            rng = Fin 0 \<and>
            label_intraday_state session_df check_time = Some (datetime sel, ''neutral'')) \<and>
         (\<forall>d r. float64 (Close sel - low) = Fin d \<and> rng = Fin r \<and> r \<noteq> 0 \<longrightarrow>
            position = float64 (d / r))"
proof -
  let ?up = "filter (\<lambda>b. dt_time (datetime b) \<le> check_time) session_df"
  from assms(1) obtain b where "b \<in> set session_df" and "dt_time (datetime b) = check_time"
    by (metis (mono_tags, lifting) filter_False)
  then have "b \<in> set ?up" by simp
  then have ne: "?up \<noteq> []" by (metis empty_iff empty_set)
  have hi: "series_max (map High ?up) = Fin high"
    using ne by (simp add: series_max_Max assms(3))
  have lo: "series_min (map Low ?up) = Fin low"
    using ne by (simp add: series_min_Min assms(4))
  have main: "label_intraday_state session_df check_time =
           Some (datetime sel,
                 if rng = Fin 0 then ''neutral''
                 else if np_ge position 0.75 then ''high''
                 else if np_le position 0.25 then ''low''
                 else ''neutral'')"
    unfolding label_intraday_state_def Let_def hi lo
    using assms(1) by (simp add: assms(2,5,6))
  have zero: "rng = Fin 0" if "high = low"
    using that by (simp add: assms(5) float64_zero)
  have quot: "position = float64 (d / r)"
    if "float64 (Close sel - low) = Fin d \<and> rng = Fin r \<and> r \<noteq> 0" for d r
    using that by (simp add: assms(6))
  show ?thesis using main zero quot by simp
qed

lemma threshold_difference:
  "float64 (7972778715329331 / 70368744177664 - 3110298492652749 / 140737488355328) =
     Fin (1604407367250739 / 17592186044416)"
  using float64_eval [of 6 "7972778715329331 / 70368744177664 - 3110298492652749 / 140737488355328"
      6417629469002956]
  by (simp add: powr_minus round_half_even_def)

lemma threshold_range:
  "float64 (2527997134582579 / 17592186044416 - 3110298492652749 / 140737488355328) =
     Fin (4278419646001971 / 35184372088832)"
  using float64_eval [of 6 "2527997134582579 / 17592186044416 - 3110298492652749 / 140737488355328"
      8556839292003942]
  by (simp add: powr_minus round_half_even_def)

lemma threshold_position:
  "float64 (1604407367250739 / 17592186044416 / (4278419646001971 / 35184372088832)) =
     Fin (6755399441055743 / 9007199254740992)"
  using float64_eval [of "-1" "1604407367250739 / 17592186044416 / (4278419646001971 / 35184372088832)"
      6755399441055743]
  by (simp add: powr_minus round_half_even_def)


theorem label_intraday_state_rule_witness:
  "filter (\<lambda>b. dt_time (datetime b) = example_time) example_session \<noteq> [] \<and>
   label_intraday_state example_session example_time = Some ((100, (12, 30, 0, 0)), ''high'') \<and>
   filter (\<lambda>b. dt_time (datetime b) = example_time) example_flat_session \<noteq> [] \<and>
   label_intraday_state example_flat_session example_time = Some ((100, (12, 30, 0, 0)), ''neutral'') \<and>
   filter (\<lambda>b. dt_time (datetime b) = example_time) threshold_session \<noteq> [] \<and>
   label_intraday_state threshold_session example_time = Some ((100, (12, 30, 0, 0)), ''neutral'')"
proof -
  let ?sel = "\<lparr>datetime = (100, (12, 30, 0, 0)), Open = 9, High = 14, Low = 10, Close = 13, Volume = 5\<rparr>"
  let ?flat = "\<lparr>datetime = (100, (12, 30, 0, 0)), Open = 7, High = 7, Low = 7, Close = 7, Volume = 1\<rparr>"
  let ?thr = "\<lparr>datetime = (100, (12, 30, 0, 0)), Open = 100,
       High = 2527997134582579 / 17592186044416,
       Low = 3110298492652749 / 140737488355328,
       Close = 7972778715329331 / 70368744177664, Volume = 1\<rparr>"
  have ne: "filter (\<lambda>b. dt_time (datetime b) = example_time) example_session \<noteq> []"
    and sel: "?sel = last (filter (\<lambda>b. dt_time (datetime b) = example_time) example_session)"
    and hi: "14 = Max (set (map High (filter (\<lambda>b. dt_time (datetime b) \<le> example_time) example_session)))"
    and lo: "9 = Min (set (map Low (filter (\<lambda>b. dt_time (datetime b) \<le> example_time) example_session)))"
    by (simp_all add: example_session_def example_time_def dt_time_def)
  have rng: "Fin 5 = float64 (14 - 9)"
    using float64_5 by simp
  have pos: "Fin (3602879701896397 / 4503599627370496) = np_fdiv (float64 (Close ?sel - 9)) (Fin 5)"
    using float64_4 float64_four_fifths by simp
  have ne': "filter (\<lambda>b. dt_time (datetime b) = example_time) example_flat_session \<noteq> []"
    and sel': "?flat = last (filter (\<lambda>b. dt_time (datetime b) = example_time) example_flat_session)"
    and hi': "7 = Max (set (map High (filter (\<lambda>b. dt_time (datetime b) \<le> example_time) example_flat_session)))"
    and lo': "7 = Min (set (map Low (filter (\<lambda>b. dt_time (datetime b) \<le> example_time) example_flat_session)))"
    by (simp_all add: example_flat_session_def example_time_def dt_time_def)
  have ne'': "filter (\<lambda>b. dt_time (datetime b) = example_time) threshold_session \<noteq> []"
    and sel'': "?thr = last (filter (\<lambda>b. dt_time (datetime b) = example_time) threshold_session)"
    and hi'': "2527997134582579 / 17592186044416 =
        Max (set (map High (filter (\<lambda>b. dt_time (datetime b) \<le> example_time) threshold_session)))"
    and lo'': "3110298492652749 / 140737488355328 =
        Min (set (map Low (filter (\<lambda>b. dt_time (datetime b) \<le> example_time) threshold_session)))"
    by (simp_all add: threshold_session_def example_time_def dt_time_def)
  have rng'': "Fin (4278419646001971 / 35184372088832) =
        float64 (2527997134582579 / 17592186044416 - 3110298492652749 / 140737488355328)"
    using threshold_range by simp
  have pos'': "Fin (6755399441055743 / 9007199254740992) =
        np_fdiv (float64 (Close ?thr - 3110298492652749 / 140737488355328))
                (Fin (4278419646001971 / 35184372088832))"
    using threshold_difference threshold_position by simp
  have a: "label_intraday_state example_session example_time = Some ((100, (12, 30, 0, 0)), ''high'')"
    using label_intraday_state_rule [OF ne sel hi lo rng pos] by simp
  have b: "label_intraday_state example_flat_session example_time = Some ((100, (12, 30, 0, 0)), ''neutral'')"
    using label_intraday_state_rule [OF ne' sel' hi' lo' refl refl] by simp
  have c: "label_intraday_state threshold_session example_time = Some ((100, (12, 30, 0, 0)), ''neutral'')"
    using label_intraday_state_rule [OF ne'' sel'' hi'' lo'' rng'' pos''] by simp
  show ?thesis using ne ne' ne'' a b c by simp
qed

lemma threshold_exact_quotient:
  "(3 / 4 :: real) \<le>
     (7972778715329331 / 70368744177664 - 3110298492652749 / 140737488355328) /
     (2527997134582579 / 17592186044416 - 3110298492652749 / 140737488355328)"
  by simp

lemma np_sub_Fin [simp]: "np_sub (Fin a) (Fin b) = Fin (a - b)"
  by (simp add: np_sub_def)

text \<open>
  Claim C1. When the first 12:30 row carries a label that reads high, the entry price is
  its \<open>vwap_upper\<close> plus the buffer and the profit at each checkpoint is the entry price
  minus the checkpoint's Close; when it reads low, the entry price is its \<open>vwap_lower\<close>
  minus the buffer and the profit is the Close minus the entry price. A trade is
  profitable when its profit is strictly greater than 0. With \<open>vwap_upper = 100\<close> the
  entry price is 110, and with a 16:00 Close of 95 the profit is 15 and profitable.
\<close>

theorem analyze_session_rule:
  assumes "filter (\<lambda>r. time_str r = ''12:30:00'') df = entry_row # rest0"
    and "tr_target_label entry_row = Some label"
    and "filter (\<lambda>r. time_str r = ''15:00:00'') df = r15 # rest1"
    and "filter (\<lambda>r. time_str r = ''16:00:00'') df = r16 # rest2"
  shows "(lower label = ''high'' \<longrightarrow>
           (\<exists>res. analyze_session sess df = Some res \<and>
              entry_price res = np_add (tr_vwap_upper entry_row) (Fin buffer) \<and>
              profit_15 res = np_sub (entry_price res) (Fin (tr_Close r15)) \<and>
              profit_16 res = np_sub (entry_price res) (Fin (tr_Close r16)) \<and>
              profitable_15 res = np_gt (profit_15 res) 0 \<and>
              profitable_16 res = np_gt (profit_16 res) 0 \<and>
              (tr_vwap_upper entry_row = Fin 100 \<longrightarrow>
                 entry_price res = Fin 110 \<and>
                 (tr_Close r16 = 95 \<longrightarrow> profit_16 res = Fin 15 \<and> profitable_16 res)))) \<and>
         (lower label = ''low'' \<longrightarrow>
           (\<exists>res. analyze_session sess df = Some res \<and>
              entry_price res = np_sub (tr_vwap_lower entry_row) (Fin buffer) \<and>
              profit_15 res = np_sub (Fin (tr_Close r15)) (entry_price res) \<and>
              profit_16 res = np_sub (Fin (tr_Close r16)) (entry_price res) \<and>
              profitable_15 res = np_gt (profit_15 res) 0 \<and>
              profitable_16 res = np_gt (profit_16 res) 0))"
  using assms by (simp add: analyze_session_def Let_def buffer_def)

theorem analyze_session_rule_witness:
  "lower ''high'' = ''high'' \<and>
   (\<exists>res. analyze_session ''2025-01-27'' example_trade_df = Some res \<and>
      entry_price res = Fin 110 \<and> profit_15 res = Fin 5 \<and> profit_16 res = Fin 15 \<and>
      profitable_15 res \<and> profitable_16 res) \<and>
   lower ''low'' = ''low'' \<and>
   (\<exists>res. analyze_session ''2025-01-28'' example_long_df = Some res \<and>
      entry_price res = Fin 40 \<and> profit_15 res = Fin 0 \<and> profit_16 res = Fin 5 \<and>
      \<not> profitable_15 res \<and> profitable_16 res)"
proof -
  let ?e = "\<lparr>time_str = ''12:30:00'', tr_target_label = Some ''high'',
       tr_vwap_upper = Fin 100, tr_vwap_lower = Fin 80, tr_Close = 98\<rparr>"
  let ?a = "\<lparr>time_str = ''15:00:00'', tr_target_label = None,
       tr_vwap_upper = Fin 101, tr_vwap_lower = Fin 81, tr_Close = 105\<rparr>"
  let ?b = "\<lparr>time_str = ''16:00:00'', tr_target_label = None,
       tr_vwap_upper = Fin 102, tr_vwap_lower = Fin 82, tr_Close = 95\<rparr>"
  have h: "lower ''high'' = ''high''" and l: "lower ''low'' = ''low''"
    by (simp_all add: lower_def lower_char_def)
  have f1: "filter (\<lambda>r. time_str r = ''12:30:00'') example_trade_df = ?e # []"
    and f2: "tr_target_label ?e = Some ''high''"
    and f3: "filter (\<lambda>r. time_str r = ''15:00:00'') example_trade_df = ?a # []"
    and f4: "filter (\<lambda>r. time_str r = ''16:00:00'') example_trade_df = ?b # []"
    by (simp_all add: example_trade_df_def)
  have short: "\<exists>res. analyze_session ''2025-01-27'' example_trade_df = Some res \<and>
      entry_price res = Fin 110 \<and> profit_15 res = Fin 5 \<and> profit_16 res = Fin 15 \<and>
      profitable_15 res \<and> profitable_16 res"
    using analyze_session_rule [OF f1 f2 f3 f4, of "''2025-01-27''"] h by auto
  let ?e' = "\<lparr>time_str = ''12:30:00'', tr_target_label = Some ''low'',
       tr_vwap_upper = Fin 70, tr_vwap_lower = Fin 50, tr_Close = 52\<rparr>"
  let ?a' = "\<lparr>time_str = ''15:00:00'', tr_target_label = None,
       tr_vwap_upper = Fin 71, tr_vwap_lower = Fin 51, tr_Close = 40\<rparr>"
  let ?b' = "\<lparr>time_str = ''16:00:00'', tr_target_label = None,
       tr_vwap_upper = Fin 72, tr_vwap_lower = Fin 52, tr_Close = 45\<rparr>"
  have g1: "filter (\<lambda>r. time_str r = ''12:30:00'') example_long_df = ?e' # []"
    and g2: "tr_target_label ?e' = Some ''low''"
    and g3: "filter (\<lambda>r. time_str r = ''15:00:00'') example_long_df = ?a' # []"
    and g4: "filter (\<lambda>r. time_str r = ''16:00:00'') example_long_df = ?b' # []"
    by (simp_all add: example_long_df_def)
  have long: "\<exists>res. analyze_session ''2025-01-28'' example_long_df = Some res \<and>
      entry_price res = Fin 40 \<and> profit_15 res = Fin 0 \<and> profit_16 res = Fin 5 \<and>
      \<not> profitable_15 res \<and> profitable_16 res"
    using analyze_session_rule [OF g1 g2 g3 g4, of "''2025-01-28''"] l
    by (auto simp: buffer_def)
  show ?thesis using h l short long by blast
qed


section \<open>Winning streaks\<close>


lemma spec_streaks_replicate: "spec_streaks (replicate n True) = (if n = 0 then [] else [n])"
  by (cases n) (simp_all add: takeWhile_replicate dropWhile_replicate)

lemma spec_streaks_replicate_False:
  "spec_streaks (replicate n True @ False # fs) = (if n = 0 then [] else [n]) @ spec_streaks fs"
proof (cases n)
  case 0
  then show ?thesis by simp
next
  case (Suc m)
  have t: "takeWhile (\<lambda>b. b) (replicate m True @ False # fs) = replicate m True"
    by (induction m) simp_all
  have d: "dropWhile (\<lambda>b. b) (replicate m True @ False # fs) = False # fs"
    by (induction m) simp_all
  show ?thesis using Suc by (simp add: t d)
qed

lemma streak_loop_spec:
  "(case streak_loop rs acc cur of (st, c) \<Rightarrow> if c > 0 then st @ [c] else st) =
   acc @ spec_streaks (replicate cur True @ map profitable_16 rs)"
proof (induction rs arbitrary: acc cur)
  case Nil
  then show ?case by (simp add: spec_streaks_replicate)
next
  case (Cons r rs)
  show ?case
  proof (cases "profitable_16 r")
    case True
    have e: "replicate cur True @ map profitable_16 (r # rs) =
          replicate (cur + 1) True @ map profitable_16 rs"
      using True by (simp add: replicate_app_Cons_same)
    have "streak_loop (r # rs) acc cur = streak_loop rs acc (cur + 1)"
      using True by simp
    then show ?thesis
      using Cons.IH [of acc "cur + 1"] by (simp only: e)
  next
    case False
    then show ?thesis
      using Cons.IH [of "if cur > 0 then acc @ [cur] else acc" 0]
      by (simp add: spec_streaks_replicate_False)
  qed
qed

lemma winning_streaks_spec: "winning_streaks rs = spec_streaks (map profitable_16 rs)"
  using streak_loop_spec [of rs "[]" 0] by (simp add: winning_streaks_def)

lemma collect_results_skip:
  "analyze_session sess df = None \<Longrightarrow>
   collect_results (xs @ (sess, df) # ys) = collect_results (xs @ ys)"
  by (induction xs) (auto split: option.splits)

lemma compute_winning_streaks_eq:
  fixes strptime :: "string \<Rightarrow> 'd::linorder option"
  assumes "\<forall>r\<in>set rs. strptime (res_session r) \<noteq> None"
  shows "compute_winning_streaks strptime rs =
     (let streaks = spec_streaks (map profitable_16
                      (sort_key (\<lambda>r. the (strptime (res_session r))) rs))
      in if streaks = [] then Inr (0, 0, 0)
         else Inr (Max (set streaks), real (sum_list streaks) / real (length streaks),
                   Min (set streaks)))"
proof -
  have ex: "\<not> list_ex (\<lambda>x. strptime (res_session x) = None) rs"
    using assms by (simp add: list_ex_iff)
  define streaks where "streaks = spec_streaks (map profitable_16
                      (sort_key (\<lambda>r. the (strptime (res_session r))) rs))"
  have c: "compute_winning_streaks strptime rs =
        (case streaks of [] \<Rightarrow> Inr (0, 0, 0)
         | s # ss \<Rightarrow> Inr (fold max ss s, real (sum_list streaks) / real (length streaks),
                        fold min ss s))"
    unfolding compute_winning_streaks_def Let_def winning_streaks_spec streaks_def
    using ex by simp
  show ?thesis
  proof (cases streaks)
    case Nil
    then show ?thesis using c by (simp add: streaks_def [symmetric] Let_def)
  next
    case (Cons s ss)
    have "fold max ss s = Max (set streaks)" and "fold min ss s = Min (set streaks)"
      unfolding Cons by (simp_all only: Max.set_eq_fold Min.set_eq_fold)
    then show ?thesis
      using c Cons by (simp add: streaks_def [symmetric] Let_def)
  qed
qed


lemma spec_streaks_all_False: "\<forall>b\<in>set fs. \<not> b \<Longrightarrow> spec_streaks fs = []"
  by (induction fs) auto


lemma collect_results_map_filter:
  "collect_results sessions = List.map_filter (\<lambda>(sess, df). analyze_session sess df) sessions"
  by (induction sessions) (auto simp: List.map_filter_simps split: option.splits)

text \<open>
  Claim C3. \<open>main\<close> keeps the result of every session that has one, in the order of the
  sessions, and nothing for a session without a result, and computes the streaks over
  this list. The results are put in ascending order of their session dates by a stable
  sort; the streaks are the lengths of the maximal runs of consecutive results that were
  profitable at 16:00, and with at least one streak the function returns the longest, the
  average and the shortest of them, in this order. For the ordered flags
  \<open>[True, True, False, True]\<close> this is \<open>(2, 1.5, 1)\<close>. A session without a result leaves
  no entry in the list of results, so it cannot end a run.
\<close>

theorem winning_streaks_rule:
  fixes strptime :: "string \<Rightarrow> 'd::linorder option"
  assumes "rs = collect_results sessions"
    and "\<forall>r\<in>set rs. strptime (res_session r) \<noteq> None"
    and "sorted_results = sort_key (\<lambda>r. the (strptime (res_session r))) rs"
    and "streaks = spec_streaks (map profitable_16 sorted_results)"
  shows "rs = List.map_filter (\<lambda>(sess, df). analyze_session sess df) sessions \<and>
         main_winning_streaks strptime sessions = compute_winning_streaks strptime rs \<and>
         sorted (map (\<lambda>r. the (strptime (res_session r))) sorted_results) \<and>
         mset sorted_results = mset rs \<and>
         (\<forall>k. filter (\<lambda>r. the (strptime (res_session r)) = k) sorted_results =
              filter (\<lambda>r. the (strptime (res_session r)) = k) rs) \<and>
         (streaks \<noteq> [] \<longrightarrow>
            main_winning_streaks strptime sessions =
              Inr (Max (set streaks), real (sum_list streaks) / real (length streaks),
                   Min (set streaks))) \<and>
         (map profitable_16 sorted_results = [True, True, False, True] \<longrightarrow>
            main_winning_streaks strptime sessions = Inr (2, 3 / 2, 1)) \<and>
         (\<forall>xs sess df ys. analyze_session sess df = None \<longrightarrow>
            collect_results (xs @ (sess, df) # ys) = collect_results (xs @ ys)) \<and>
         (\<forall>xs sess df ys res. analyze_session sess df = Some res \<longrightarrow>
            collect_results (xs @ (sess, df) # ys) =
              collect_results xs @ res # collect_results ys)"
proof (intro conjI allI impI)
  show "rs = List.map_filter (\<lambda>(sess, df). analyze_session sess df) sessions"
    by (simp add: assms(1) collect_results_map_filter)
  show m: "main_winning_streaks strptime sessions = compute_winning_streaks strptime rs"
    by (simp add: main_winning_streaks_def assms(1))
  show "sorted (map (\<lambda>r. the (strptime (res_session r))) sorted_results)"
    by (simp add: assms(3))
  show "mset sorted_results = mset rs"
    by (simp add: assms(3))
  show "filter (\<lambda>r. the (strptime (res_session r)) = k) sorted_results =
        filter (\<lambda>r. the (strptime (res_session r)) = k) rs" for k
    by (simp add: assms(3) sort_key_stable)
  note eq = compute_winning_streaks_eq [OF assms(2), unfolded Let_def, folded assms(3), folded assms(4)]
  show "main_winning_streaks strptime sessions =
          Inr (Max (set streaks), real (sum_list streaks) / real (length streaks),
               Min (set streaks))" if "streaks \<noteq> []"
    using eq that by (simp add: m)
  show "main_winning_streaks strptime sessions = Inr (2, 3 / 2, 1)"
    if "map profitable_16 sorted_results = [True, True, False, True]"
  proof -
    have "streaks = [2, 1]" using that by (simp add: assms(4))
    then show ?thesis using eq by (simp add: m)
  qed
  show "collect_results (xs @ (sess, df) # ys) = collect_results (xs @ ys)"
    if "analyze_session sess df = None" for xs sess df ys
    using that by (rule collect_results_skip)
  show "collect_results (xs @ (sess, df) # ys) = collect_results xs @ res # collect_results ys"
    if "analyze_session sess df = Some res" for xs sess df ys res
    using that by (induction xs) (auto split: option.splits)
qed

lemma example_strptime_values:
  "example_strptime ''2025-01-27'' = Some (2025, 1, 27)"
  "example_strptime ''2025-01-28'' = Some (2025, 1, 28)"
  "example_strptime ''2025-01-29'' = Some (2025, 1, 29)"
  "example_strptime ''2025-01-30'' = Some (2025, 1, 30)"
  by (simp_all add: example_strptime_def digit_val_def)

lemma example_strptime_31: "example_strptime ''2025-01-31'' = Some (2025, 1, 31)"
  by (simp add: example_strptime_def digit_val_def)

lemma analyze_example_trade_df:
  "analyze_session sess example_trade_df =
     Some \<lparr>res_session = sess, res_target_label = ''high'', entry_price = Fin 110,
           price_15 = 105, profit_15 = Fin 5, profitable_15 = True,
           price_16 = 95, profit_16 = Fin 15, profitable_16 = True\<rparr>"
  by (simp add: analyze_session_def example_trade_df_def lower_def lower_char_def buffer_def
      np_sub_def)

lemma analyze_example_long_df:
  "analyze_session sess example_long_df =
     Some \<lparr>res_session = sess, res_target_label = ''low'', entry_price = Fin 40,
           price_15 = 40, profit_15 = Fin 0, profitable_15 = False,
           price_16 = 45, profit_16 = Fin 5, profitable_16 = True\<rparr>"
  by (simp add: analyze_session_def example_long_df_def lower_def lower_char_def buffer_def
      np_sub_def)

lemma analyze_example_losing_df:
  "analyze_session sess example_losing_df =
     Some \<lparr>res_session = sess, res_target_label = ''high'', entry_price = Fin 110,
           price_15 = 115, profit_15 = Fin (- 5), profitable_15 = False,
           price_16 = 120, profit_16 = Fin (- 10), profitable_16 = False\<rparr>"
  by (simp add: analyze_session_def example_losing_df_def lower_def lower_char_def buffer_def
      np_sub_def)

lemma analyze_no_rows: "analyze_session sess [] = None"
  by (simp add: analyze_session_def)

lemma example_collected:
  "map res_session (collect_results example_sessions) =
     [''2025-01-30'', ''2025-01-27'', ''2025-01-31'', ''2025-01-29''] \<and>
   map profitable_16 (collect_results example_sessions) = [False, True, True, True]"
  by (simp add: example_sessions_def analyze_example_trade_df analyze_example_long_df
      analyze_example_losing_df analyze_no_rows)

theorem winning_streaks_rule_witness:
  "length example_sessions = 5 \<and>
   analyze_session ''2025-01-28'' [] = None \<and>
   map res_session (collect_results example_sessions) =
     [''2025-01-30'', ''2025-01-27'', ''2025-01-31'', ''2025-01-29''] \<and>
   map profitable_16 (collect_results example_sessions) = [False, True, True, True] \<and>
   list_all (\<lambda>r. example_strptime (res_session r) \<noteq> None) (collect_results example_sessions) \<and>
   map profitable_16
     (sort_key (\<lambda>r. the (example_strptime (res_session r))) (collect_results example_sessions)) =
     [True, True, False, True] \<and>
   main_winning_streaks example_strptime example_sessions = Inr (2, 3 / 2, 1)"
proof -
  have l: "length example_sessions = 5" by (simp add: example_sessions_def)
  have rs: "collect_results example_sessions =
     [\<lparr>res_session = ''2025-01-30'', res_target_label = ''high'', entry_price = Fin 110,
       price_15 = 115, profit_15 = Fin (- 5), profitable_15 = False,
       price_16 = 120, profit_16 = Fin (- 10), profitable_16 = False\<rparr>,
      \<lparr>res_session = ''2025-01-27'', res_target_label = ''high'', entry_price = Fin 110,
       price_15 = 105, profit_15 = Fin 5, profitable_15 = True,
       price_16 = 95, profit_16 = Fin 15, profitable_16 = True\<rparr>,
      \<lparr>res_session = ''2025-01-31'', res_target_label = ''high'', entry_price = Fin 110,
       price_15 = 105, profit_15 = Fin 5, profitable_15 = True,
       price_16 = 95, profit_16 = Fin 15, profitable_16 = True\<rparr>,
      \<lparr>res_session = ''2025-01-29'', res_target_label = ''low'', entry_price = Fin 40,
       price_15 = 40, profit_15 = Fin 0, profitable_15 = False,
       price_16 = 45, profit_16 = Fin 5, profitable_16 = True\<rparr>]"
    by (simp add: example_sessions_def analyze_example_trade_df analyze_example_long_df
        analyze_example_losing_df analyze_no_rows)
  have p: "\<forall>r\<in>set (collect_results example_sessions). example_strptime (res_session r) \<noteq> None"
    by (simp add: rs example_strptime_values example_strptime_31)
  have f: "map profitable_16
     (sort_key (\<lambda>r. the (example_strptime (res_session r))) (collect_results example_sessions)) =
     [True, True, False, True]"
    by (simp add: rs example_strptime_values example_strptime_31)
  from winning_streaks_rule [OF refl p refl refl] f
  have "main_winning_streaks example_strptime example_sessions = Inr (2, 3 / 2, 1)"
    by blast
  then show ?thesis using l p f example_collected analyze_no_rows by (simp add: list_all_iff)
qed

text \<open>
  Claim C10. For an empty list of results, and for a list (with session strings that
  are dates) in which no result is profitable at 16:00, the function returns 0 for the
  longest, the average and the shortest streak.
\<close>

theorem no_winning_streak_zero:
  fixes strptime :: "string \<Rightarrow> 'd::linorder option"
  shows "compute_winning_streaks strptime [] = Inr (0, 0, 0) \<and>
         ((\<forall>r\<in>set rs. strptime (res_session r) \<noteq> None) \<and> (\<forall>r\<in>set rs. \<not> profitable_16 r) \<longrightarrow>
            compute_winning_streaks strptime rs = Inr (0, 0, 0))"
proof (intro conjI impI)
  show "compute_winning_streaks strptime [] = Inr (0, 0, 0)"
    by (simp add: compute_winning_streaks_def winning_streaks_def)
  assume h: "(\<forall>r\<in>set rs. strptime (res_session r) \<noteq> None) \<and> (\<forall>r\<in>set rs. \<not> profitable_16 r)"
  then have "\<forall>b\<in>set (map profitable_16 (sort_key (\<lambda>r. the (strptime (res_session r))) rs)). \<not> b"
    by simp
  then have "spec_streaks (map profitable_16 (sort_key (\<lambda>r. the (strptime (res_session r))) rs)) = []"
    by (rule spec_streaks_all_False)
  then show "compute_winning_streaks strptime rs = Inr (0, 0, 0)"
    using compute_winning_streaks_eq [of rs strptime] h by (simp add: Let_def)
qed

theorem no_winning_streak_zero_witness:
  "compute_winning_streaks example_strptime [] = Inr (0, 0, 0) \<and>
   list_all (\<lambda>r. example_strptime (res_session r) \<noteq> None) example_losing_results \<and>
   map profitable_16 example_losing_results = [False, False] \<and>
   compute_winning_streaks example_strptime example_losing_results = Inr (0, 0, 0)"
proof -
  have p: "\<forall>r\<in>set example_losing_results. example_strptime (res_session r) \<noteq> None"
    by (simp add: example_losing_results_def example_result_def example_strptime_values)
  have n: "\<forall>r\<in>set example_losing_results. \<not> profitable_16 r"
    by (simp add: example_losing_results_def example_result_def)
  have u: "map profitable_16 example_losing_results = [False, False]"
    by (simp add: example_losing_results_def example_result_def)
  note th = no_winning_streak_zero [of example_strptime example_losing_results]
  have e: "compute_winning_streaks example_strptime [] = Inr (0, 0, 0)"
    using th by blast
  have z: "compute_winning_streaks example_strptime example_losing_results = Inr (0, 0, 0)"
    using th p n by blast
  show ?thesis using e p u z by (simp add: list_all_iff)
qed

end
